theory Spec2Isabelle
  imports Main "HOL-Library.AList" "HOL-Library.Char_ord" "HOL-Library.List_Lexorder"
    "HOL-Library.Multiset"
begin

section \<open>JavaScript values used by the worker\<close>

text \<open>
  The worker (\<^verbatim>\<open>src/worker.js\<close>) turns fetched COUNTER reports into flat rows and renders
  them as CSV or as a pivot table. Numbers are modelled as \<open>int\<close> (the counts are integers
  far below \<open>2^53\<close>), strings as \<open>string\<close>, plain objects used as dictionaries as
  association lists in insertion order, written with \<open>AList.update\<close> and read with
  \<open>map_of\<close>, which give the own keys. A lookup \<^verbatim>\<open>obj[k]\<close> on a plain object also finds
  the members inherited from \<^verbatim>\<open>Object.prototype\<close> (\<open>proto_names\<close> below); the pivot
  aggregator treats such keys as the code does, the prototype being the untouched one of
  a fresh runtime.
\<close>

subsection \<open>Number to string\<close>

definition digit_char :: "nat \<Rightarrow> char" where
  "digit_char n = char_of (48 + n)"

fun nat_to_string :: "nat \<Rightarrow> string" where
  "nat_to_string n =
     (if n < 10 then [digit_char n]
      else nat_to_string (n div 10) @ [digit_char (n mod 10)])"

declare nat_to_string.simps [simp del]

definition int_to_string :: "int \<Rightarrow> string" where
  \<comment> \<open>\<^verbatim>\<open>String(n)\<close> / \<^verbatim>\<open>n.toString()\<close> for an integer \<open>n\<close>\<close>
  "int_to_string i =
     (if i < 0 then CHR ''-'' # nat_to_string (nat (- i)) else nat_to_string (nat i))"

definition slice_last2 :: "string \<Rightarrow> string" where
  \<comment> \<open>\<^verbatim>\<open>s.slice(-2)\<close>\<close>
  "slice_last2 s = drop (length s - 2) s"

subsection \<open>Dates and month labels\<close>

text \<open>
  A \<^verbatim>\<open>Date\<close> is modelled by its calendar fields in the runtime's time zone
  (\<^verbatim>\<open>getFullYear()\<close>, \<^verbatim>\<open>getMonth()\<close> in 0..11, \<^verbatim>\<open>getDate()\<close>); the request's
  dates are date-only strings, so the time of day is midnight, in UTC as in the time zone
  of the worker. Two dates compare as their time values do: first by month count, then by
  day.
\<close>

record jsdate =
  getFullYear :: int
  getMonth :: nat
  getDate :: nat

definition valid_date :: "jsdate \<Rightarrow> bool" where
  "valid_date d \<longleftrightarrow> getMonth d < 12 \<and> 1 \<le> getDate d \<and> getDate d \<le> 31"

definition month_index :: "jsdate \<Rightarrow> int" where
  "month_index d = getFullYear d * 12 + int (getMonth d)"

definition date_le :: "jsdate \<Rightarrow> jsdate \<Rightarrow> bool" where
  \<comment> \<open>\<^verbatim>\<open>a <= b\<close> on two Date objects\<close>
  "date_le a b \<longleftrightarrow>
     month_index a < month_index b \<or> (month_index a = month_index b \<and> getDate a \<le> getDate b)"

definition new_Date :: "int \<Rightarrow> nat \<Rightarrow> nat \<Rightarrow> jsdate" where
  \<comment> \<open>\<^verbatim>\<open>new Date(year, month, day)\<close>: a year from 0 to 99 means 1900 + year\<close>
  "new_Date y m d =
     \<lparr>getFullYear = (if 0 \<le> y \<and> y \<le> 99 then 1900 + y else y), getMonth = m, getDate = d\<rparr>"

definition setMonth :: "jsdate \<Rightarrow> nat \<Rightarrow> jsdate" where
  \<comment> \<open>\<^verbatim>\<open>d.setMonth(k)\<close> on the first day of a month: month 12 is January of the next year\<close>
  "setMonth d k = d\<lparr>getFullYear := getFullYear d + int (k div 12), getMonth := k mod 12\<rparr>"

definition months_tbl :: "string list" where
  "months_tbl = [''Jan'', ''Feb'', ''Mar'', ''Apr'', ''May'', ''Jun'',
                 ''Jul'', ''Aug'', ''Sep'', ''Oct'', ''Nov'', ''Dec'']"

definition month_name :: "nat \<Rightarrow> string" where
  \<comment> \<open>\<^verbatim>\<open>months[i]\<close> inside a template string: out of range prints \<^verbatim>\<open>undefined\<close>\<close>
  "month_name i = (if i < 12 then months_tbl ! i else ''undefined'')"

definition formatMonthKey :: "jsdate \<Rightarrow> string" where
  "formatMonthKey date =
     (let month = month_name (getMonth date);
          year = slice_last2 (int_to_string (getFullYear date))
      in month @ ''-'' @ year)"

function month_loop :: "jsdate \<Rightarrow> jsdate \<Rightarrow> string list" where
  "month_loop current end_date =
     (if date_le current end_date
      then formatMonthKey current # month_loop (setMonth current (getMonth current + 1)) end_date
      else [])"
  by pat_completeness auto
termination
proof (relation "measure (\<lambda>(c, e). nat (month_index e + 1 - month_index c))")
  show "wf (measure (\<lambda>(c, e). nat (month_index e + 1 - month_index c)))"
    by simp
next
  fix current end_date :: jsdate
  assume le: "date_le current end_date"
  have "int (Suc (getMonth current) div 12) * 12 + int (Suc (getMonth current) mod 12)
          = int (Suc (getMonth current))"
    by (metis div_mult_mod_eq of_nat_add of_nat_mult of_nat_numeral)
  then have "month_index (setMonth current (getMonth current + 1)) = month_index current + 1"
    by (simp add: month_index_def setMonth_def algebra_simps)
  moreover from le have "month_index current \<le> month_index end_date"
    by (auto simp: date_le_def)
  ultimately show "((setMonth current (getMonth current + 1), end_date), (current, end_date))
      \<in> measure (\<lambda>(c, e). nat (month_index e + 1 - month_index c))"
    by simp
qed

declare month_loop.simps [simp del]

definition getMonthColumns :: "jsdate \<Rightarrow> jsdate \<Rightarrow> string list" where
  "getMonthColumns beginDate endDate =
     (let start = beginDate; end_date = endDate;
          current = new_Date (getFullYear start) (getMonth start) 1
      in month_loop current end_date)"

subsection \<open>Strings and \<^verbatim>\<open>parseInt\<close>\<close>

definition toLowerCase :: "string \<Rightarrow> string" where
  \<comment> \<open>on ASCII letters, which is what the report-type names are made of\<close>
  "toLowerCase s =
     map (\<lambda>c. if CHR ''A'' \<le> c \<and> c \<le> CHR ''Z'' then char_of (of_char c + (32::nat)) else c) s"

definition is_digit :: "char \<Rightarrow> bool" where
  "is_digit c \<longleftrightarrow> CHR ''0'' \<le> c \<and> c \<le> CHR ''9''"

definition is_space :: "char \<Rightarrow> bool" where
  "is_space c \<longleftrightarrow> c \<in> set [CHR '' '', CHR 0x09, CHR 0x0A, CHR 0x0B, CHR 0x0C, CHR 0x0D]"

definition digits_value :: "string \<Rightarrow> int" where
  "digits_value ds = foldl (\<lambda>n c. 10 * n + (of_char c - 48)) 0 ds"

definition is_hex_digit :: "char \<Rightarrow> bool" where
  "is_hex_digit c \<longleftrightarrow>
     is_digit c \<or> (CHR ''a'' \<le> c \<and> c \<le> CHR ''f'') \<or> (CHR ''A'' \<le> c \<and> c \<le> CHR ''F'')"

definition hex_digit_value :: "char \<Rightarrow> int" where
  "hex_digit_value c =
     (if is_digit c then of_char c - 48
      else if CHR ''a'' \<le> c \<and> c \<le> CHR ''f'' then of_char c - 87
      else of_char c - 55)"

definition hex_value :: "string \<Rightarrow> int" where
  "hex_value ds = foldl (\<lambda>n c. 16 * n + hex_digit_value c) 0 ds"

definition parseInt :: "string \<Rightarrow> int option" where
  \<comment> \<open>\<^verbatim>\<open>parseInt(s)\<close> with no radix: leading blanks, a sign, then the longest run of
      decimal digits, or of hexadecimal digits after the prefix \<^verbatim>\<open>0x\<close> or \<^verbatim>\<open>0X\<close>;
      \<open>None\<close> is \<^verbatim>\<open>NaN\<close>\<close>
  "parseInt s =
     (let t = dropWhile is_space s;
          neg = (t \<noteq> [] \<and> hd t = CHR ''-'');
          r = (if t \<noteq> [] \<and> (hd t = CHR ''-'' \<or> hd t = CHR ''+'') then tl t else t);
          hex = (take 2 r = ''0x'' \<or> take 2 r = ''0X'');
          ds = (if hex then takeWhile is_hex_digit (drop 2 r) else takeWhile is_digit r);
          n = (if hex then hex_value ds else digits_value ds)
      in if ds = [] then None
         else Some (if neg then - n else n))"

definition or0 :: "int option \<Rightarrow> int" where
  \<comment> \<open>\<^verbatim>\<open>x || 0\<close> on a number: \<^verbatim>\<open>NaN\<close> and 0 give 0\<close>
  "or0 x = (case x of None \<Rightarrow> 0 | Some n \<Rightarrow> n)"

fun split_on :: "char \<Rightarrow> string \<Rightarrow> string list" where
  "split_on c [] = [[]]"
| "split_on c (x # xs) =
     (if x = c then [] # split_on c xs
      else (case split_on c xs of p # ps \<Rightarrow> (x # p) # ps | [] \<Rightarrow> [[x]]))"

fun join :: "string \<Rightarrow> string list \<Rightarrow> string" where
  "join sep [] = []"
| "join sep [x] = x"
| "join sep (x # y # ys) = x @ sep @ join sep (y # ys)"

definition convertApiMonthToDisplayMonth :: "string \<Rightarrow> string" where
  "convertApiMonthToDisplayMonth apiMonth =
     (let parts = split_on CHR ''-'' apiMonth;
          year = hd parts;
          monthName = (case tl parts of
                         [] \<Rightarrow> ''undefined''
                       | monthNum # _ \<Rightarrow>
                           (case parseInt monthNum of
                              None \<Rightarrow> ''undefined''
                            | Some n \<Rightarrow> if 1 \<le> n then month_name (nat (n - 1)) else ''undefined''));
          shortYear = slice_last2 year
      in monthName @ ''-'' @ shortYear)"

subsection \<open>Objects as dictionaries\<close>

definition is_array_index :: "string \<Rightarrow> bool" where
  \<comment> \<open>the canonical decimal form of an integer below \<open>2^32 - 1\<close>\<close>
  "is_array_index k \<longleftrightarrow>
     k \<noteq> [] \<and> list_all is_digit k \<and> (k = ''0'' \<or> hd k \<noteq> CHR ''0'') \<and> digits_value k < 4294967295"

definition Object_entries :: "(string \<times> 'v) list \<Rightarrow> (string \<times> 'v) list" where
  \<comment> \<open>own keys in enumeration order: array indices ascending, then the others as inserted\<close>
  "Object_entries obj =
     sort_key (\<lambda>kv. digits_value (fst kv)) (filter (\<lambda>kv. is_array_index (fst kv)) obj)
     @ filter (\<lambda>kv. \<not> is_array_index (fst kv)) obj"

definition Object_keys :: "(string \<times> 'v) list \<Rightarrow> string list" where
  "Object_keys obj = map fst (Object_entries obj)"

definition proto_names :: "string list" where
  \<comment> \<open>the members a plain object inherits from \<^verbatim>\<open>Object.prototype\<close>: \<^verbatim>\<open>obj[k]\<close> finds
      them (a function, or the prototype itself for \<^verbatim>\<open>__proto__\<close>, all truthy), while
      \<^verbatim>\<open>Object.keys(obj)\<close> and \<^verbatim>\<open>Object.entries(obj)\<close> do not list them\<close>
  "proto_names =
     [''constructor'', ''__defineGetter__'', ''__defineSetter__'', ''hasOwnProperty'',
      ''__lookupGetter__'', ''__lookupSetter__'', ''isPrototypeOf'', ''propertyIsEnumerable'',
      ''toString'', ''valueOf'', ''__proto__'', ''toLocaleString'']"

datatype js_error = TypeError

definition num :: "(string \<times> int) list \<Rightarrow> string \<Rightarrow> int" where
  \<comment> \<open>\<^verbatim>\<open>obj[k]\<close> for a key that the code has initialised\<close>
  "num obj k = (case map_of obj k of None \<Rightarrow> 0 | Some v \<Rightarrow> v)"

section \<open>Report payloads, requests and rows\<close>

text \<open>
  A string field that the code reads as \<^verbatim>\<open>x.F || ''\<close> is a \<open>string\<close>, the empty
  string standing for an absent one. Identifier containers come in two shapes: a list of
  \<^verbatim>\<open>{Type, Value}\<close> entries, or an object with named properties.
\<close>

datatype prop_value = Prop_absent | Prop_string string | Prop_array "string list"

datatype prop_ids =
    Ids_array "(string \<times> string) list"
  | Ids_object prop_value

datatype item_ids =
    Item_ids_array "(string \<times> string) list"
  | Item_ids_object string string string string

datatype json_count = Count_number int | Count_string string | Count_absent

datatype begin_date = Invalid_Date | Begin_Date jsdate

record metric_instance =
  inst_Metric_Type :: string
  inst_Count :: json_count

record performance =
  perf_Period :: "begin_date option"
  perf_Instance :: "metric_instance list"

record attr_perf =
  ap_Access_Type :: string
  ap_YOP :: string
  ap_Performance :: "(string \<times> (string \<times> json_count) list) list"

record report_item =
  item_Title :: string
  item_Publisher :: string
  item_Platform :: string
  item_Item_ID :: item_ids
  item_Publisher_ID :: prop_ids
  item_Access_Type :: string
  item_YOP :: string
  item_Year_of_Publication :: string
  item_Performance :: "performance list"
  item_Attribute_Performance :: "attr_perf list option"

record report_header =
  hdr_Institution_Name :: string
  hdr_Institution_ID :: "prop_ids option"

record report =
  Report_Header :: "report_header option"
  Report_Items :: "report_item list option"

record account =
  customer_id :: string
  requestor_id :: string

record request =
  format :: string
  report_type :: string
  begin_date :: jsdate
  end_date :: jsdate
  formatted :: bool

text \<open>
  A row is the object the normalizer builds: the named fields, the two optional
  classification fields (\<open>None\<close> when the key is not set) and the month cells. A field
  that may hold an array (an identifier read from a malformed container) is kept as the
  text \<^verbatim>\<open>String()\<close> gives for it, which is all the renderers use.
\<close>

record row =
  Institution_Name :: string
  Institution_ID :: string
  Title :: string
  Publisher :: string
  Publisher_ID :: string
  Platform :: string
  DOI :: string
  Proprietary_ID :: string
  Print_ISSN :: string
  Online_ISSN :: string
  URI :: string
  Metric_Type :: string
  Reporting_Period_Total :: int
  Access_Type :: "string option"
  YOP :: "string option"
  month_cells :: "(string \<times> int) list"

record item_data =
  title :: string
  publisher :: string
  publisher_id :: string
  platform :: string
  doi :: string
  proprietary_id :: string
  print_issn :: string
  online_issn :: string
  uri :: string

definition parseInt_count :: "json_count \<Rightarrow> int option" where
  "parseInt_count c =
     (case c of Count_number n \<Rightarrow> Some n | Count_string s \<Rightarrow> parseInt s | Count_absent \<Rightarrow> None)"

definition proprietary_of :: "prop_value \<Rightarrow> string" where
  \<comment> \<open>\<^verbatim>\<open>ids.Proprietary?.[0] || ids.Proprietary || ''\<close>\<close>
  "proprietary_of p =
     (case p of
        Prop_absent \<Rightarrow> ''''
      | Prop_string s \<Rightarrow> (if s = '''' then '''' else [hd s])
      | Prop_array xs \<Rightarrow> (if xs \<noteq> [] \<and> hd xs \<noteq> '''' then hd xs else join '','' xs))"

definition proprietary_entry :: "(string \<times> string) list \<Rightarrow> string" where
  \<comment> \<open>\<^verbatim>\<open>ids.find(id => id.Type === 'Proprietary')?.Value || ''\<close>\<close>
  "proprietary_entry ids =
     (case find (\<lambda>e. fst e = ''Proprietary'') ids of None \<Rightarrow> '''' | Some e \<Rightarrow> snd e)"

definition getInstitutionId :: "report \<Rightarrow> string" where
  "getInstitutionId jsonData =
     (case Report_Header jsonData of
        None \<Rightarrow> ''''
      | Some h \<Rightarrow>
          (case hdr_Institution_ID h of
             None \<Rightarrow> ''''
           | Some (Ids_array institutionIds) \<Rightarrow> proprietary_entry institutionIds
           | Some (Ids_object p) \<Rightarrow> proprietary_of p))"

definition extractItemData :: "report_item \<Rightarrow> item_data" where
  "extractItemData item =
     (let ids = (case item_Item_ID item of
                   Item_ids_array itemIds \<Rightarrow>
                     fold (\<lambda>e (d, p, pi, oi).
                             if fst e = ''DOI'' then (snd e, p, pi, oi)
                             else if fst e = ''Proprietary'' then (d, snd e, pi, oi)
                             else if fst e = ''Print_ISSN'' then (d, p, snd e, oi)
                             else if fst e = ''Online_ISSN'' then (d, p, pi, snd e)
                             else (d, p, pi, oi))
                          itemIds ('''', '''', '''', '''')
                 | Item_ids_object d p pi oi \<Rightarrow> (d, p, pi, oi));
          pub = (case item_Publisher_ID item of
                   Ids_array publisherIds \<Rightarrow> proprietary_entry publisherIds
                 | Ids_object p \<Rightarrow> proprietary_of p)
      in \<lparr>title = item_Title item, publisher = item_Publisher item, publisher_id = pub,
          platform = item_Platform item, doi = fst ids, proprietary_id = fst (snd ids),
          print_issn = fst (snd (snd ids)), online_issn = snd (snd (snd ids)), uri = ''''\<rparr>)"

section \<open>The row normalizer\<close>

record metric_data =
  md_monthlyValues :: "(string \<times> int) list"
  md_total :: int

record processed =
  entries :: "row list"
  success :: bool

definition fill_months :: "string list \<Rightarrow> (string \<Rightarrow> int) \<Rightarrow> (string \<times> int) list" where
  \<comment> \<open>\<^verbatim>\<open>monthColumns.forEach(month => { entry[month] = f(month) })\<close> on a fresh entry\<close>
  "fill_months monthColumns f =
     fold (\<lambda>month cells. AList.update month (f month) cells) monthColumns []"

definition new_entry :: "string \<Rightarrow> string \<Rightarrow> item_data \<Rightarrow> string \<Rightarrow> int \<Rightarrow> row" where
  "new_entry institutionName institutionId baseData metricType total_count =
     \<lparr>Institution_Name = institutionName, Institution_ID = institutionId,
      Title = title baseData, Publisher = publisher baseData,
      Publisher_ID = publisher_id baseData, Platform = platform baseData,
      DOI = doi baseData, Proprietary_ID = proprietary_id baseData,
      Print_ISSN = print_issn baseData, Online_ISSN = online_issn baseData,
      URI = uri baseData, Metric_Type = metricType, Reporting_Period_Total = total_count,
      Access_Type = None, YOP = None, month_cells = []\<rparr>"

definition placeholder_data :: item_data where
  "placeholder_data =
     \<lparr>title = '''', publisher = '''', publisher_id = '''', platform = '''', doi = '''',
      proprietary_id = '''', print_issn = '''', online_issn = '''', uri = ''''\<rparr>"

definition type_fields :: "request \<Rightarrow> string \<Rightarrow> string \<Rightarrow> row \<Rightarrow> row" where
  \<comment> \<open>Access_Type only for TR_J3, YOP only for TR_J4\<close>
  "type_fields requestData accessType yop entry =
     (let e1 = (if toLowerCase (report_type requestData) = ''tr_j3''
                then entry\<lparr>Access_Type := Some accessType\<rparr> else entry)
      in if toLowerCase (report_type requestData) = ''tr_j4''
         then e1\<lparr>YOP := Some yop\<rparr> else e1)"

definition sum_months :: "(string \<times> json_count) list \<Rightarrow> (string \<times> int) list \<times> int" where
  \<comment> \<open>current schema: the loop over \<^verbatim>\<open>Object.entries(monthlyData)\<close>\<close>
  "sum_months monthlyData =
     fold (\<lambda>mc (monthlyValues, total_count).
             let monthValue = or0 (parseInt_count (snd mc));
                 monthKey = convertApiMonthToDisplayMonth (fst mc)
             in (AList.update monthKey monthValue monthlyValues, total_count + monthValue))
          (Object_entries monthlyData) ([], 0)"

definition entry_v51 ::
  "request \<Rightarrow> string \<Rightarrow> string \<Rightarrow> string list \<Rightarrow> item_data \<Rightarrow> attr_perf
   \<Rightarrow> string \<times> (string \<times> json_count) list \<Rightarrow> row" where
  \<comment> \<open>current schema: the row of one metric type of one \<^verbatim>\<open>Attribute_Performance\<close> entry\<close>
  "entry_v51 requestData institutionName institutionId monthColumns baseData attrPerf mp =
     (let metricType = fst mp;
          mt = sum_months (snd mp);
          entry = type_fields requestData (ap_Access_Type attrPerf) (ap_YOP attrPerf)
                    (new_entry institutionName institutionId baseData metricType (snd mt))
      in entry\<lparr>month_cells := fill_months monthColumns (\<lambda>month. or0 (map_of (fst mt) month))\<rparr>)"

definition rows_v51 ::
  "request \<Rightarrow> string \<Rightarrow> string \<Rightarrow> string list \<Rightarrow> report_item \<Rightarrow> row list" where
  "rows_v51 requestData institutionName institutionId monthColumns item =
     (let baseData = extractItemData item
      in concat (map (\<lambda>attrPerf.
                        map (entry_v51 requestData institutionName institutionId monthColumns
                               baseData attrPerf)
                            (Object_entries (ap_Performance attrPerf)))
                     (case item_Attribute_Performance item of None \<Rightarrow> [] | Some aps \<Rightarrow> aps)))"

definition month_key :: "begin_date \<Rightarrow> string" where
  \<comment> \<open>\<^verbatim>\<open>formatMonthKey(new Date(period.Begin_Date))\<close>; an unparsable date prints
      \<^verbatim>\<open>undefined-aN\<close>\<close>
  "month_key b = (case b of Invalid_Date \<Rightarrow> ''undefined-aN'' | Begin_Date d \<Rightarrow> formatMonthKey d)"

definition collect_instance ::
  "string \<Rightarrow> metric_instance \<Rightarrow> (string \<times> metric_data) list \<Rightarrow> (string \<times> metric_data) list" where
  \<comment> \<open>for a metric type that is not one of \<open>proto_names\<close>; for those the code finds the
      inherited member, skips the initialisation and throws at \<^verbatim>\<open>.monthlyValues[monthKey]\<close>,
      which the harvesting loop turns into the failure row of the account\<close>
  "collect_instance monthKey inst metricData =
     (let metricType = inst_Metric_Type inst;
          count = or0 (parseInt_count (inst_Count inst));
          cur = (case map_of metricData metricType of
                   None \<Rightarrow> \<lparr>md_monthlyValues = [], md_total = 0\<rparr>
                 | Some d \<Rightarrow> d)
      in AList.update metricType
           (cur\<lparr>md_monthlyValues := AList.update monthKey count (md_monthlyValues cur),
                md_total := md_total cur + count\<rparr>)
           metricData)"

definition collect_performance ::
  "performance \<Rightarrow> (string \<times> metric_data) list \<Rightarrow> (string \<times> metric_data) list" where
  "collect_performance perf metricData =
     (case perf_Period perf of
        None \<Rightarrow> metricData
      | Some b \<Rightarrow> fold (collect_instance (month_key b)) (perf_Instance perf) metricData)"

definition collect_metrics :: "report_item \<Rightarrow> (string \<times> metric_data) list" where
  \<comment> \<open>legacy schema, first pass\<close>
  "collect_metrics item = fold collect_performance (item_Performance item) []"

definition entry_v5 ::
  "request \<Rightarrow> string \<Rightarrow> string \<Rightarrow> string list \<Rightarrow> item_data \<Rightarrow> string \<Rightarrow> string
   \<Rightarrow> string \<times> metric_data \<Rightarrow> row" where
  \<comment> \<open>legacy schema, second pass: the row of one metric type\<close>
  "entry_v5 requestData institutionName institutionId monthColumns baseData accessType yop md =
     (let entry = type_fields requestData accessType yop
                    (new_entry institutionName institutionId baseData (fst md) (md_total (snd md)))
      in entry\<lparr>month_cells :=
           fill_months monthColumns (\<lambda>month. or0 (map_of (md_monthlyValues (snd md)) month))\<rparr>)"

definition rows_v5 ::
  "request \<Rightarrow> string \<Rightarrow> string \<Rightarrow> string list \<Rightarrow> report_item \<Rightarrow> row list" where
  "rows_v5 requestData institutionName institutionId monthColumns item =
     (let baseData = extractItemData item;
          accessType = item_Access_Type item;
          yop = (if item_YOP item \<noteq> '''' then item_YOP item else item_Year_of_Publication item)
      in map (entry_v5 requestData institutionName institutionId monthColumns baseData accessType yop)
             (Object_entries (collect_metrics item)))"

definition processApiResponse :: "report \<Rightarrow> request \<Rightarrow> account \<Rightarrow> processed" where
  "processApiResponse jsonData requestData acct =
     (let institutionName = (case Report_Header jsonData of
                               None \<Rightarrow> '''' | Some h \<Rightarrow> hdr_Institution_Name h);
          institutionId = getInstitutionId jsonData;
          reportItems = (case Report_Items jsonData of None \<Rightarrow> [] | Some items \<Rightarrow> items);
          monthColumns = getMonthColumns (begin_date requestData) (end_date requestData);
          isVersion51 = (format requestData = ''5.1'' \<or>
                         (reportItems \<noteq> [] \<and> item_Attribute_Performance (hd reportItems) \<noteq> None))
      in if reportItems \<noteq> [] then
           (if isVersion51
            then \<lparr>entries = concat (map (rows_v51 requestData institutionName institutionId
                                           monthColumns) reportItems),
                  success = True\<rparr>
            else \<lparr>entries = concat (map (rows_v5 requestData institutionName institutionId
                                           monthColumns) reportItems),
                  success = True\<rparr>)
         else
           (let noDataEntry =
                  type_fields requestData '''' ''''
                    ((new_entry (if institutionName \<noteq> '''' then institutionName else ''No Data'')
                        institutionId placeholder_data ''No Data'' 0)
                     \<lparr>Title := ''No usage data for this period''\<rparr>)
            in \<lparr>entries = [noDataEntry\<lparr>month_cells := fill_months monthColumns (\<lambda>month. 0)\<rparr>],
                success = True\<rparr>))"

definition createErrorEntry :: "string \<Rightarrow> request \<Rightarrow> account \<Rightarrow> row" where
  \<comment> \<open>the first argument is \<^verbatim>\<open>error.message\<close>\<close>
  "createErrorEntry message requestData acct =
     (let monthColumns = getMonthColumns (begin_date requestData) (end_date requestData);
          errorEntry =
            type_fields requestData '''' ''''
              ((new_entry ''ERROR'' (customer_id acct) placeholder_data ''ERROR'' 0)
               \<lparr>Title := ''Failed: '' @ message\<rparr>)
      in errorEntry\<lparr>month_cells := fill_months monthColumns (\<lambda>month. 0)\<rparr>)"

section \<open>The pivot aggregator\<close>

text \<open>
  The running totals (\<^verbatim>\<open>{ total: 0 }\<close> with one more key per month column) are objects,
  hence association lists with the key \<^verbatim>\<open>total\<close>. The counts stored in a row are numbers,
  so \<^verbatim>\<open>parseInt(x) || 0\<close> returns them unchanged; a month the row has no cell for counts 0.
\<close>

record pivot_row =
  label :: string
  level :: nat
  total :: int
  months :: "int list"

type_synonym totals = "(string \<times> int) list"

definition accessTypeOrder :: "string list" where
  "accessTypeOrder = [''Controlled'', ''Free_To_Read'', ''Open'']"

definition metricOrder :: "string list" where
  "metricOrder = [''Total_Item_Investigations'', ''Total_Item_Requests'',
                  ''Unique_Item_Investigations'', ''Unique_Item_Requests'']"

definition zero_totals :: "string list \<Rightarrow> totals" where
  \<comment> \<open>\<^verbatim>\<open>t = { total: 0 }; monthColumns.forEach(m => t[m] = 0)\<close>\<close>
  "zero_totals monthColumns = fold (\<lambda>m t. AList.update m 0 t) monthColumns [(''total'', 0)]"

definition add_totals :: "string list \<Rightarrow> totals \<Rightarrow> totals \<Rightarrow> totals" where
  \<comment> \<open>\<^verbatim>\<open>acc.total += src.total; monthColumns.forEach(m => acc[m] += src[m])\<close>\<close>
  "add_totals monthColumns src acc =
     fold (\<lambda>m t. AList.update m (num t m + num src m) t) monthColumns
          (AList.update ''total'' (num acc ''total'' + num src ''total'') acc)"

definition add_row :: "string list \<Rightarrow> row \<Rightarrow> totals \<Rightarrow> totals" where
  \<comment> \<open>adding a row's total and month cells into a bucket\<close>
  "add_row monthColumns r acc =
     fold (\<lambda>m t. AList.update m (num t m + or0 (map_of (month_cells r) m)) t) monthColumns
          (AList.update ''total'' (num acc ''total'' + Reporting_Period_Total r) acc)"

definition as_pivot_row :: "string list \<Rightarrow> string \<Rightarrow> nat \<Rightarrow> totals \<Rightarrow> pivot_row" where
  "as_pivot_row monthColumns l n t =
     \<lparr>label = l, level = n, total = num t ''total'', months = map (num t) monthColumns\<rparr>"

definition push_institution_row ::
  "row \<Rightarrow> (string \<times> row list) list \<Rightarrow> js_error + (string \<times> row list) list" where
  \<comment> \<open>the body of the loop that groups the valid rows by institution. For a name of
      \<open>proto_names\<close> the test \<^verbatim>\<open>!byInstitution[instName]\<close> finds the inherited member, no
      array is stored, and \<^verbatim>\<open>byInstitution[instName].push(row)\<close> throws a
      \<^verbatim>\<open>TypeError\<close> (the member has no \<^verbatim>\<open>push\<close>)\<close>
  "push_institution_row r byInstitution =
     (let instName = Institution_Name r
      in case map_of byInstitution instName of
           Some rs \<Rightarrow> Inr (AList.update instName (rs @ [r]) byInstitution)
         | None \<Rightarrow>
             if instName \<in> set proto_names then Inl TypeError
             else Inr (AList.update instName [r] byInstitution))"

fun group_rows ::
  "row list \<Rightarrow> (string \<times> row list) list \<Rightarrow> js_error + (string \<times> row list) list" where
  "group_rows [] byInstitution = Inr byInstitution"
| "group_rows (r # rs) byInstitution =
     (case push_institution_row r byInstitution of
        Inl e \<Rightarrow> Inl e
      | Inr byInstitution' \<Rightarrow> group_rows rs byInstitution')"

definition group_by_institution :: "row list \<Rightarrow> js_error + (string \<times> row list) list" where
  \<comment> \<open>\<^verbatim>\<open>for (const row of validData) { ... }\<close>; \<open>Inl\<close> is the error thrown out of the loop\<close>
  "group_by_institution valid = group_rows valid []"

definition or_Unknown :: "string option \<Rightarrow> string" where
  \<comment> \<open>\<^verbatim>\<open>row.Access_Type || 'Unknown'\<close>, \<^verbatim>\<open>row.YOP || 'Unknown'\<close>\<close>
  "or_Unknown v = (case v of None \<Rightarrow> ''Unknown'' | Some s \<Rightarrow> if s = '''' then ''Unknown'' else s)"

definition access_bucket :: "row \<Rightarrow> string" where
  \<comment> \<open>the grouping key of TR_J3\<close>
  "access_bucket r = or_Unknown (Access_Type r)"

definition yop_bucket :: "row \<Rightarrow> string" where
  \<comment> \<open>the grouping key of TR_J4\<close>
  "yop_bucket r = or_Unknown (YOP r)"

definition add_metric_row :: "string list \<Rightarrow> row \<Rightarrow> (string \<times> totals) list \<Rightarrow> (string \<times> totals) list" where
  \<comment> \<open>the body of the loop that groups the rows of an institution by metric type. For a
      metric type of \<open>proto_names\<close> the test \<^verbatim>\<open>!groupedData[metricType]\<close> finds the
      inherited member, so no bucket is stored and the additions go to that member:
      \<^verbatim>\<open>groupedData\<close> keeps its own keys\<close>
  "add_metric_row monthColumns r groupedData =
     (let metricType = Metric_Type r
      in case map_of groupedData metricType of
           Some t \<Rightarrow> AList.update metricType (add_row monthColumns r t) groupedData
         | None \<Rightarrow>
             if metricType \<in> set proto_names then groupedData
             else AList.update metricType (add_row monthColumns r (zero_totals monthColumns))
                    groupedData)"

definition group_metrics :: "string list \<Rightarrow> row list \<Rightarrow> (string \<times> totals) list" where
  \<comment> \<open>TR_J1, TR_J2: by metric type\<close>
  "group_metrics monthColumns instRows = fold (add_metric_row monthColumns) instRows []"

definition add_nested_row ::
  "string list \<Rightarrow> (row \<Rightarrow> string) \<Rightarrow> row \<Rightarrow> (string \<times> (string \<times> totals) list) list
   \<Rightarrow> (string \<times> (string \<times> totals) list) list" where
  \<comment> \<open>the body of the loop that groups by access type or year, then by metric type. For a
      key of \<open>proto_names\<close> the test \<^verbatim>\<open>!groupedData[k]\<close> finds the inherited member, no
      bucket is stored and the row is added into that member, so \<^verbatim>\<open>groupedData\<close> keeps
      its own keys. What the additions do to the inherited member is outside the model:
      for the key \<^verbatim>\<open>__proto__\<close> that member is \<^verbatim>\<open>Object.prototype\<close> itself, which
      the code thereby changes for every later lookup, and on an inherited function the
      lookup of a metric type named \<^verbatim>\<open>caller\<close> or \<^verbatim>\<open>arguments\<close> throws. The
      properties below that depend on it are stated for rows with \<open>plain_keys\<close>.\<close>
  "add_nested_row monthColumns key r groupedData =
     (let k = key r
      in case map_of groupedData k of
           Some g \<Rightarrow> AList.update k (add_metric_row monthColumns r g) groupedData
         | None \<Rightarrow>
             if k \<in> set proto_names then groupedData
             else AList.update k (add_metric_row monthColumns r []) groupedData)"

definition group_nested ::
  "string list \<Rightarrow> (row \<Rightarrow> string) \<Rightarrow> row list \<Rightarrow> (string \<times> (string \<times> totals) list) list" where
  \<comment> \<open>TR_J3 and TR_J4: by access type or year of publication, then by metric type\<close>
  "group_nested monthColumns key instRows = fold (add_nested_row monthColumns key) instRows []"

definition sum_metrics :: "string list \<Rightarrow> (string \<times> totals) list \<Rightarrow> totals \<Rightarrow> totals" where
  \<comment> \<open>the loop over \<^verbatim>\<open>metricOrder\<close> that adds every metric present into \<open>acc\<close>\<close>
  "sum_metrics monthColumns g acc =
     fold (\<lambda>metricType t.
             case map_of g metricType of None \<Rightarrow> t | Some metricData \<Rightarrow> add_totals monthColumns metricData t)
          metricOrder acc"

definition metric_rows :: "string list \<Rightarrow> nat \<Rightarrow> (string \<times> totals) list \<Rightarrow> pivot_row list" where
  "metric_rows monthColumns n g =
     concat (map (\<lambda>metricType.
                    case map_of g metricType of
                      None \<Rightarrow> []
                    | Some metricData \<Rightarrow> [as_pivot_row monthColumns metricType n metricData])
                 metricOrder)"

definition bucket_rows :: "string list \<Rightarrow> string \<Rightarrow> (string \<times> totals) list \<Rightarrow> pivot_row list" where
  \<comment> \<open>one level-1 row with its subtotal, then its level-2 metric rows\<close>
  "bucket_rows monthColumns l g =
     as_pivot_row monthColumns l 1 (sum_metrics monthColumns g (zero_totals monthColumns))
     # metric_rows monthColumns 2 g"

definition block_j3 :: "string list \<Rightarrow> string \<Rightarrow> row list \<Rightarrow> pivot_row list \<times> totals" where
  "block_j3 monthColumns instName instRows =
     (let groupedData = group_nested monthColumns access_bucket instRows;
          instTotals =
            fold (\<lambda>accessType t.
                    case map_of groupedData accessType of
                      None \<Rightarrow> t
                    | Some g \<Rightarrow>
                        add_totals monthColumns
                          (sum_metrics monthColumns g (zero_totals monthColumns)) t)
                 accessTypeOrder (zero_totals monthColumns)
      in (as_pivot_row monthColumns instName 0 instTotals
          # concat (map (\<lambda>accessType.
                           case map_of groupedData accessType of
                             None \<Rightarrow> []
                           | Some g \<Rightarrow> bucket_rows monthColumns accessType g)
                        accessTypeOrder),
          instTotals))"

definition yop_compare :: "string \<Rightarrow> string \<Rightarrow> int" where
  \<comment> \<open>the comparator of the year sort; a \<^verbatim>\<open>NaN\<close> result counts as 0\<close>
  "yop_compare a b =
     (if a = ''Unknown'' then 1
      else if b = ''Unknown'' then - 1
      else (case (parseInt b, parseInt a) of
              (Some y, Some x) \<Rightarrow> y - x
            | _ \<Rightarrow> 0))"

fun insert_by :: "('a \<Rightarrow> 'a \<Rightarrow> int) \<Rightarrow> 'a \<Rightarrow> 'a list \<Rightarrow> 'a list" where
  "insert_by cmp x [] = [x]"
| "insert_by cmp x (y # ys) = (if cmp x y \<le> 0 then x # y # ys else y # insert_by cmp x ys)"

definition sort_by :: "('a \<Rightarrow> 'a \<Rightarrow> int) \<Rightarrow> 'a list \<Rightarrow> 'a list" where
  \<comment> \<open>\<^verbatim>\<open>Array.prototype.sort(cmp)\<close> is stable; this is the stable insertion sort, which
      every stable sort agrees with when \<open>cmp\<close> is a consistent ordering\<close>
  "sort_by cmp xs = foldr (insert_by cmp) xs []"

definition block_j4 :: "string list \<Rightarrow> string \<Rightarrow> row list \<Rightarrow> pivot_row list \<times> totals" where
  "block_j4 monthColumns instName instRows =
     (let groupedData = group_nested monthColumns yop_bucket instRows;
          instTotals =
            fold (\<lambda>yop t. sum_metrics monthColumns (snd yop) t)
                 (Object_entries groupedData) (zero_totals monthColumns);
          sortedYops = sort_by yop_compare (Object_keys groupedData)
      in (as_pivot_row monthColumns instName 0 instTotals
          # concat (map (\<lambda>yop.
                           case map_of groupedData yop of
                             None \<Rightarrow> []
                           | Some g \<Rightarrow> bucket_rows monthColumns yop g)
                        sortedYops),
          instTotals))"

definition block_other :: "string list \<Rightarrow> string \<Rightarrow> row list \<Rightarrow> pivot_row list \<times> totals" where
  "block_other monthColumns instName instRows =
     (let groupedData = group_metrics monthColumns instRows;
          instTotals =
            fold (\<lambda>metricType t. add_totals monthColumns (snd metricType) t)
                 (Object_entries groupedData) (zero_totals monthColumns)
      in (as_pivot_row monthColumns instName 0 instTotals
          # metric_rows monthColumns 1 groupedData,
          instTotals))"

definition institution_block ::
  "string \<Rightarrow> string list \<Rightarrow> string \<Rightarrow> row list \<Rightarrow> pivot_row list \<times> totals" where
  "institution_block reportType monthColumns instName instRows =
     (if reportType = ''tr_j3'' then block_j3 monthColumns instName instRows
      else if reportType = ''tr_j4'' then block_j4 monthColumns instName instRows
      else block_other monthColumns instName instRows)"

definition validData :: "row list \<Rightarrow> row list" where
  "validData data = filter (\<lambda>r. Title r \<noteq> ''ERROR'' \<and> Metric_Type r \<noteq> ''No Data'') data"

definition errorData :: "row list \<Rightarrow> row list" where
  "errorData data = filter (\<lambda>r. Title r = ''ERROR'' \<or> Metric_Type r = ''No Data'') data"

definition pivotRows :: "row list \<Rightarrow> request \<Rightarrow> js_error + pivot_row list" where
  \<comment> \<open>the array \<^verbatim>\<open>pivotRows\<close> of \<^verbatim>\<open>formatAsPivot\<close> when the rendering starts, or the
      error thrown before\<close>
  "pivotRows data requestData =
     (let monthColumns = getMonthColumns (begin_date requestData) (end_date requestData);
          reportType = toLowerCase (report_type requestData)
      in case group_by_institution (validData data) of
           Inl e \<Rightarrow> Inl e
         | Inr byInstitution \<Rightarrow>
             (let sortedInstitutions = sort (Object_keys byInstitution);
                  st = fold (\<lambda>instName (rows, grandTotals).
                               let instRows = (case map_of byInstitution instName of
                                                 None \<Rightarrow> [] | Some rs \<Rightarrow> rs);
                                   blk = institution_block reportType monthColumns instName instRows
                               in (rows @ fst blk, add_totals monthColumns (snd blk) grandTotals))
                            sortedInstitutions ([], zero_totals monthColumns)
              in Inr (fst st @ [as_pivot_row monthColumns ''Grand Total'' 0 (snd st)])))"

definition quoted :: "string \<Rightarrow> string" where
  "quoted s = [CHR 0x22] @ s @ [CHR 0x22]"

definition pivot_line :: "pivot_row \<Rightarrow> string" where
  "pivot_line r =
     (let indent = concat (replicate (level r) ''  '')
      in join '','' (quoted (indent @ label r) # int_to_string (total r)
                     # map int_to_string (months r)))"

definition error_lines :: "row list \<Rightarrow> string list" where
  "error_lines errs =
     (if errs \<noteq> []
      then [[], quoted ''--- Errors ---'']
           @ map (\<lambda>r. quoted (Institution_ID r) @ '','' @ quoted (Title r)) errs
      else [])"

definition formatAsPivot :: "row list \<Rightarrow> request \<Rightarrow> js_error + string" where
  "formatAsPivot data requestData =
     (let monthColumns = getMonthColumns (begin_date requestData) (end_date requestData);
          headers = [[], ''Reporting_Period_Total''] @ monthColumns
      in case pivotRows data requestData of
           Inl e \<Rightarrow> Inl e
         | Inr rows \<Rightarrow>
             Inr (join [CHR 0x0A]
                    ([join '','' (map quoted headers)]
                     @ map pivot_line rows
                     @ error_lines (errorData data))))"

section \<open>The flat CSV renderer\<close>

definition row_field :: "row \<Rightarrow> string \<Rightarrow> string option" where
  \<comment> \<open>\<^verbatim>\<open>String(row[h])\<close>, or \<open>None\<close> when \<^verbatim>\<open>row[h]\<close> is undefined\<close>
  "row_field r h =
     (if h = ''Institution_Name'' then Some (Institution_Name r)
      else if h = ''Institution_ID'' then Some (Institution_ID r)
      else if h = ''Title'' then Some (Title r)
      else if h = ''Publisher'' then Some (Publisher r)
      else if h = ''Publisher_ID'' then Some (Publisher_ID r)
      else if h = ''Platform'' then Some (Platform r)
      else if h = ''DOI'' then Some (DOI r)
      else if h = ''Proprietary_ID'' then Some (Proprietary_ID r)
      else if h = ''Print_ISSN'' then Some (Print_ISSN r)
      else if h = ''Online_ISSN'' then Some (Online_ISSN r)
      else if h = ''URI'' then Some (URI r)
      else if h = ''YOP'' then YOP r
      else if h = ''Access_Type'' then Access_Type r
      else if h = ''Metric_Type'' then Some (Metric_Type r)
      else if h = ''Reporting_Period_Total'' then Some (int_to_string (Reporting_Period_Total r))
      else map_option int_to_string (map_of (month_cells r) h))"

definition csv_value :: "string option \<Rightarrow> string" where
  "csv_value v =
     (case v of
        None \<Rightarrow> quoted []
      | Some s \<Rightarrow> quoted (concat (map (\<lambda>c. if c = CHR 0x22 then [c, c] else [c]) s)))"

definition convertToCSV :: "row list \<Rightarrow> request \<Rightarrow> string" where
  "convertToCSV data requestData =
     (if data = [] then []
      else
        (let baseColumns =
               [''Institution_Name'', ''Institution_ID'', ''Title'', ''Publisher'', ''Publisher_ID'',
                ''Platform'', ''DOI'', ''Proprietary_ID'', ''Print_ISSN'', ''Online_ISSN'', ''URI'']
               @ (if toLowerCase (report_type requestData) = ''tr_j4'' then [''YOP''] else [])
               @ (if toLowerCase (report_type requestData) = ''tr_j3'' then [''Access_Type''] else [])
               @ [''Metric_Type'', ''Reporting_Period_Total''];
             monthColumns = getMonthColumns (begin_date requestData) (end_date requestData);
             headers = baseColumns @ monthColumns;
             csvRows = [join '','' (map quoted headers)]
                       @ map (\<lambda>r. join '','' (map (\<lambda>h. csv_value (row_field r h)) headers)) data
         in join [CHR 0x0A] csvRows))"

section \<open>The harvesting loop\<close>

text \<open>
  \<^verbatim>\<open>processAccounts\<close> and \<^verbatim>\<open>processWithProgress\<close> run the same steps for every account.
  What the network returns is an input of the model: the fetch rejects with a message, or
  answers with a status and a body that parses as a report or fails to parse.
\<close>

datatype body = Body_invalid string | Body_json report

datatype fetch_result = Fetch_rejects string | Response int body

record harvest =
  results :: "row list"
  successful :: nat
  failed :: nat

definition fetch_report :: "fetch_result \<Rightarrow> string + report" where
  \<comment> \<open>the \<^verbatim>\<open>try\<close> block up to \<^verbatim>\<open>response.json()\<close>: \<open>Inl\<close> is the message of the error thrown\<close>
  "fetch_report f =
     (case f of
        Fetch_rejects message \<Rightarrow> Inl message
      | Response status b \<Rightarrow>
          if \<not> (200 \<le> status \<and> status \<le> 299) then Inl (''API returned '' @ int_to_string status)
          else (case b of Body_invalid message \<Rightarrow> Inl message | Body_json jsonData \<Rightarrow> Inr jsonData))"

definition harvest_account :: "request \<Rightarrow> account \<times> fetch_result \<Rightarrow> harvest \<Rightarrow> harvest" where
  "harvest_account requestData af h =
     (case fetch_report (snd af) of
        Inr jsonData \<Rightarrow>
          (let processedData = processApiResponse jsonData requestData (fst af)
           in if success processedData
              then h\<lparr>results := results h @ entries processedData, successful := successful h + 1\<rparr>
              else h\<lparr>results := results h @ entries processedData, failed := failed h + 1\<rparr>)
      | Inl message \<Rightarrow>
          h\<lparr>failed := failed h + 1,
            results := results h @ [createErrorEntry message requestData (fst af)]\<rparr>)"

definition harvest_all :: "request \<Rightarrow> (account \<times> fetch_result) list \<Rightarrow> harvest" where
  "harvest_all requestData accts =
     fold (harvest_account requestData) accts \<lparr>results = [], successful = 0, failed = 0\<rparr>"

definition render :: "request \<Rightarrow> row list \<Rightarrow> js_error + string" where
  \<comment> \<open>\<^verbatim>\<open>requestData.formatted ? formatAsPivot(...) : convertToCSV(...)\<close>\<close>
  "render requestData rs =
     (if formatted requestData then formatAsPivot rs requestData
      else Inr (convertToCSV rs requestData))"

section \<open>Definitions used to state the properties\<close>

definition month_at :: "int \<Rightarrow> jsdate" where
  "month_at i = \<lparr>getFullYear = i div 12, getMonth = nat (i mod 12), getDate = 1\<rparr>"

definition Mon_YY :: "int \<Rightarrow> string" where
  "Mon_YY i =
     months_tbl ! nat (i mod 12) @ ''-''
     @ [digit_char (nat (i div 12 mod 100) div 10), digit_char (nat (i div 12 mod 100) mod 10)]"

definition header_name :: "report \<Rightarrow> string" where
  "header_name jsonData =
     (case Report_Header jsonData of None \<Rightarrow> '''' | Some h \<Rightarrow> hdr_Institution_Name h)"

definition run_months :: "request \<Rightarrow> string list" where
  "run_months requestData = getMonthColumns (begin_date requestData) (end_date requestData)"

definition ex_request :: "string \<Rightarrow> request" where
  \<comment> \<open>a run over January to March 2024\<close>
  "ex_request t =
     \<lparr>format = ''5'', report_type = t,
      begin_date = \<lparr>getFullYear = 2024, getMonth = 0, getDate = 1\<rparr>,
      end_date = \<lparr>getFullYear = 2024, getMonth = 2, getDate = 31\<rparr>,
      formatted = True\<rparr>"

definition ex_account :: account where
  "ex_account = \<lparr>customer_id = ''c9'', requestor_id = ''r1''\<rparr>"

definition ex_report :: "report_item list \<Rightarrow> report" where
  "ex_report items =
     \<lparr>Report_Header = Some \<lparr>hdr_Institution_Name = ''Alpha Univ'',
                              hdr_Institution_ID = Some (Ids_array [(''Proprietary'', ''a:1'')])\<rparr>,
      Report_Items = Some items\<rparr>"

definition ex_report_string_id :: report where
  \<comment> \<open>a report without items whose header gives the institution id as
      \<^verbatim>\<open>{"Proprietary": "abc:123"}\<close>\<close>
  "ex_report_string_id =
     \<lparr>Report_Header = Some \<lparr>hdr_Institution_Name = ''Alpha Univ'',
                              hdr_Institution_ID = Some (Ids_object (Prop_string ''abc:123''))\<rparr>,
      Report_Items = Some []\<rparr>"

definition ex_report_list_id :: report where
  \<comment> \<open>the same report with the id as \<^verbatim>\<open>{"Proprietary": ["abc:123"]}\<close>\<close>
  "ex_report_list_id =
     \<lparr>Report_Header = Some \<lparr>hdr_Institution_Name = ''Alpha Univ'',
                              hdr_Institution_ID = Some (Ids_object (Prop_array [''abc:123'']))\<rparr>,
      Report_Items = Some []\<rparr>"

definition ex_harvest :: harvest where
  "ex_harvest = \<lparr>results = [], successful = 0, failed = 0\<rparr>"

definition populated_v5 :: "report_item \<Rightarrow> string \<Rightarrow> string \<Rightarrow> bool" where
  \<comment> \<open>legacy schema: some period block of the item that maps to month label \<open>m\<close> holds an
      instance of the metric type\<close>
  "populated_v5 item metricType m \<longleftrightarrow>
     list_ex (\<lambda>perf. case perf_Period perf of
                        None \<Rightarrow> False
                      | Some b \<Rightarrow> month_key b = m
                          \<and> list_ex (\<lambda>inst. inst_Metric_Type inst = metricType) (perf_Instance perf))
             (item_Performance item)"

definition populated_v51 :: "(string \<times> json_count) list \<Rightarrow> string \<Rightarrow> bool" where
  \<comment> \<open>current schema: some month key of the metric's count map maps to month label \<open>m\<close>\<close>
  "populated_v51 monthlyData m \<longleftrightarrow>
     list_ex (\<lambda>mc. convertApiMonthToDisplayMonth (fst mc) = m) monthlyData"

definition cells_within :: "(string \<Rightarrow> string \<Rightarrow> bool) \<Rightarrow> (string \<times> metric_data) list \<Rightarrow> bool" where
  "cells_within P metricData \<longleftrightarrow>
     (\<forall>md \<in> set metricData. \<forall>m. map_of (md_monthlyValues (snd md)) m \<noteq> None \<longrightarrow> P (fst md) m)"

definition ex_period :: "nat \<Rightarrow> int \<Rightarrow> performance" where
  \<comment> \<open>a period block beginning on day \<open>d\<close> of January 2024 with one count\<close>
  "ex_period d n =
     \<lparr>perf_Period = Some (Begin_Date \<lparr>getFullYear = 2024, getMonth = 0, getDate = d\<rparr>),
      perf_Instance = [\<lparr>inst_Metric_Type = ''Total_Item_Requests'', inst_Count = Count_number n\<rparr>]\<rparr>"

definition ex_item :: "performance list \<Rightarrow> attr_perf list option \<Rightarrow> report_item" where
  "ex_item perfs aps =
     \<lparr>item_Title = ''Journal A'', item_Publisher = ''Pub'', item_Platform = ''Plat'',
      item_Item_ID = Item_ids_array [(''DOI'', ''10.1/a'')], item_Publisher_ID = Ids_array [],
      item_Access_Type = ''Controlled'', item_YOP = '''', item_Year_of_Publication = '''',
      item_Performance = perfs, item_Attribute_Performance = aps\<rparr>"

definition ex_attr_perf :: attr_perf where
  "ex_attr_perf =
     \<lparr>ap_Access_Type = ''Open'', ap_YOP = ''2021'',
      ap_Performance = [(''Total_Item_Requests'',
                         [(''2024-01'', Count_number 3), (''2024-02'', Count_number 4)])]\<rparr>"

definition ex_row :: "string \<Rightarrow> string \<Rightarrow> int \<Rightarrow> int \<Rightarrow> row" where
  \<comment> \<open>a data row of the example run: institution, metric type, total, January count\<close>
  "ex_row inst metricType n jan =
     (new_entry inst ''a:1'' placeholder_data metricType n)
     \<lparr>Title := ''Journal A'', month_cells := [(''Jan-24'', jan), (''Feb-24'', 0), (''Mar-24'', 0)]\<rparr>"

definition ex_failed_row :: row where
  \<comment> \<open>the row of an account whose fetch answered with status 500\<close>
  "ex_failed_row =
     (new_entry ''ERROR'' ''c9'' placeholder_data ''ERROR'' 0)
     \<lparr>Title := ''Failed: API returned 500'',
      month_cells := [(''Jan-24'', 0), (''Feb-24'', 0), (''Mar-24'', 0)]\<rparr>"



definition store_row :: "row \<Rightarrow> (string \<times> row list) list \<Rightarrow> (string \<times> row list) list" where
  \<comment> \<open>the row appended to the array of its institution, created when missing\<close>
  "store_row r byInstitution =
     AList.update (Institution_Name r)
       ((case map_of byInstitution (Institution_Name r) of None \<Rightarrow> [] | Some rs \<Rightarrow> rs) @ [r])
       byInstitution"


definition ex_row_j3 :: "string \<Rightarrow> string \<Rightarrow> string \<Rightarrow> int \<Rightarrow> row" where
  \<comment> \<open>a TR_J3 data row of the example run: institution, access type, metric type, total\<close>
  "ex_row_j3 inst access metricType n = (ex_row inst metricType n n)\<lparr>Access_Type := Some access\<rparr>"

definition ex_row_j4 :: "string \<Rightarrow> string \<Rightarrow> string \<Rightarrow> int \<Rightarrow> row" where
  \<comment> \<open>a TR_J4 data row of the example run: institution, year of publication, metric type, total\<close>
  "ex_row_j4 inst yop metricType n = (ex_row inst metricType n n)\<lparr>YOP := Some yop\<rparr>"



definition measures :: "row \<Rightarrow> string \<times> int \<times> (string \<times> int) list" where
  \<comment> \<open>the metric type of a row with its total and its month cells\<close>
  "measures r = (Metric_Type r, Reporting_Period_Total r, month_cells r)"

section \<open>The month range deriver\<close>

lemma month_index_month_at: "month_index (month_at i) = i"
  by (simp add: month_index_def month_at_def)

lemma month_at_month_index:
  assumes "getMonth c < 12" "getDate c = 1"
  shows "month_at (month_index c) = (c :: jsdate)"
proof -
  have "(getFullYear c * 12 + int (getMonth c)) div 12 = getFullYear c"
    using assms(1) by simp
  moreover have "(getFullYear c * 12 + int (getMonth c)) mod 12 = int (getMonth c)"
    using assms(1) by simp
  ultimately show ?thesis
    using assms(2) by (simp add: month_at_def month_index_def)
qed

lemma month_index_setMonth: "month_index (setMonth c (Suc (getMonth c))) = month_index c + 1"
proof -
  have "int (Suc (getMonth c) div 12) * 12 + int (Suc (getMonth c) mod 12) = int (Suc (getMonth c))"
    by (metis div_mult_mod_eq of_nat_add of_nat_mult of_nat_numeral)
  then show ?thesis
    by (simp add: month_index_def setMonth_def algebra_simps)
qed

lemma setMonth_month_at: "setMonth (month_at i) (Suc (getMonth (month_at i))) = month_at (i + 1)"
proof -
  let ?c = "setMonth (month_at i) (Suc (getMonth (month_at i)))"
  have "getMonth ?c < 12" by (simp add: setMonth_def)
  moreover have "getDate ?c = 1" by (simp add: setMonth_def month_at_def)
  ultimately have "month_at (month_index ?c) = ?c" by (rule month_at_month_index)
  then show ?thesis
    by (simp only: month_index_setMonth month_index_month_at)
qed

lemma date_le_month_at: "1 \<le> getDate e \<Longrightarrow> date_le (month_at i) e \<longleftrightarrow> i \<le> month_index e"
  by (auto simp: date_le_def month_index_month_at) (simp add: month_at_def)

lemma month_loop_month_at:
  assumes "1 \<le> getDate e"
  shows "month_loop (month_at i) e = map (\<lambda>k. formatMonthKey (month_at k)) [i..month_index e]"
  using assms
proof (induction "nat (month_index e + 1 - i)" arbitrary: i)
  case 0
  then have "\<not> i \<le> month_index e" by simp
  then show ?case
    using 0 by (subst month_loop.simps) (simp add: date_le_month_at)
next
  case (Suc n)
  then have le: "i \<le> month_index e" by simp
  have "n = nat (month_index e + 1 - (i + 1))" using Suc.hyps(2) by simp
  from Suc.hyps(1)[OF this Suc.prems]
  show ?case
    using le Suc.prems
    by (subst month_loop.simps) (simp add: date_le_month_at setMonth_month_at upto_rec1[of i])
qed

lemma two_digits_div: "(n::nat) div 10 mod 10 = n mod 100 div 10"
proof -
  have "n mod (10 * 10) = 10 * (n div 10 mod 10) + n mod 10" by (rule mod_mult2_eq)
  then show ?thesis by simp
qed

lemma two_digits_mod: "(n::nat) mod 10 = n mod 100 mod 10"
  by (simp add: mod_mod_cancel)

lemma nat_to_string_last: "\<exists>pre. nat_to_string n = pre @ [digit_char (n mod 10)]"
  by (subst nat_to_string.simps) auto

lemma slice_last2_nat_to_string:
  assumes "10 \<le> n"
  shows "slice_last2 (nat_to_string n) = [digit_char (n div 10 mod 10), digit_char (n mod 10)]"
proof -
  obtain pre where "nat_to_string (n div 10) = pre @ [digit_char (n div 10 mod 10)]"
    using nat_to_string_last by blast
  with assms have "nat_to_string n = pre @ [digit_char (n div 10 mod 10), digit_char (n mod 10)]"
    by (subst nat_to_string.simps) simp
  then show ?thesis
    by (simp add: slice_last2_def)
qed

lemma formatMonthKey_month_at:
  assumes "120 \<le> i"
  shows "formatMonthKey (month_at i) = Mon_YY i"
proof -
  let ?y = "i div 12"
  from assms have y: "10 \<le> ?y" by simp
  have m: "nat (i mod 12) < 12" by simp
  have n: "nat (?y mod 100) = nat ?y mod 100"
    using y by (simp add: nat_mod_distrib)
  have d: "nat ?y div 10 mod 10 = nat (?y mod 100) div 10" "nat ?y mod 10 = nat (?y mod 100) mod 10"
    unfolding n by (rule two_digits_div, rule two_digits_mod)
  from y have "10 \<le> nat ?y" by simp
  then have "slice_last2 (nat_to_string (nat ?y))
      = [digit_char (nat ?y div 10 mod 10), digit_char (nat ?y mod 10)]"
    by (rule slice_last2_nat_to_string)
  then have "slice_last2 (int_to_string ?y)
      = [digit_char (nat (?y mod 100) div 10), digit_char (nat (?y mod 100) mod 10)]"
    using y by (simp only: d int_to_string_def) simp
  with m show ?thesis
    by (simp add: formatMonthKey_def month_at_def Mon_YY_def month_name_def)
qed

lemma inj_month_name: "a < 12 \<Longrightarrow> b < 12 \<Longrightarrow> months_tbl ! a = months_tbl ! b \<Longrightarrow> a = b"
proof -
  have "distinct months_tbl" by (simp add: months_tbl_def)
  moreover have "length months_tbl = 12" by (simp add: months_tbl_def)
  ultimately show "a < 12 \<Longrightarrow> b < 12 \<Longrightarrow> months_tbl ! a = months_tbl ! b \<Longrightarrow> a = b"
    by (simp add: nth_eq_iff_index_eq)
qed

lemma length_month_name: "a < 12 \<Longrightarrow> length (months_tbl ! a) = 3"
proof -
  have "\<forall>s \<in> set months_tbl. length s = 3" by (simp add: months_tbl_def)
  moreover have "length months_tbl = 12" by (simp add: months_tbl_def)
  ultimately show "a < 12 \<Longrightarrow> length (months_tbl ! a) = 3"
    by simp
qed

lemma inj_digit_char:
  assumes "a < 10" "b < 10" "digit_char a = digit_char b"
  shows "a = b"
proof -
  from assms(3) have "(of_char (digit_char a) :: nat) = of_char (digit_char b)" by simp
  then have "(48 + a) mod 256 = (48 + b) mod 256" by (simp add: digit_char_def)
  with assms(1,2) show ?thesis by simp
qed

lemma label_parts_eq:
  assumes "a < 12" "b < 12" "p1 < 10" "q1 < 10" "p0 < 10" "q0 < 10"
    and eq: "months_tbl ! a @ ''-'' @ [digit_char p1, digit_char p0]
             = months_tbl ! b @ ''-'' @ [digit_char q1, digit_char q0]"
  shows "a = b \<and> p1 = q1 \<and> p0 = q0"
proof -
  have "length (months_tbl ! a) = length (months_tbl ! b)"
    using assms(1,2) by (simp only: length_month_name)
  with eq have "months_tbl ! a = months_tbl ! b"
    and "digit_char p1 = digit_char q1" and "digit_char p0 = digit_char q0"
    by simp_all
  with assms(1-6) show ?thesis
    by (blast intro: inj_month_name inj_digit_char)
qed

lemma Mon_YY_eq_iff:
  assumes "Mon_YY i = Mon_YY j"
  shows "i mod 12 = j mod 12 \<and> i div 12 mod 100 = j div 12 mod 100"
proof -
  define a b p q where "a = nat (i mod 12)" and "b = nat (j mod 12)"
    and "p = nat (i div 12 mod 100)" and "q = nat (j div 12 mod 100)"
  have ab: "a < 12" "b < 12" by (simp_all add: a_def b_def)
  have pq: "p < 100" "q < 100" by (simp_all add: p_def q_def)
  then have d1: "p div 10 < 10" "q div 10 < 10" by (simp_all add: div_less_iff_less_mult)
  have d0: "p mod 10 < 10" "q mod 10 < 10" by simp_all
  from assms have "months_tbl ! a @ ''-'' @ [digit_char (p div 10), digit_char (p mod 10)]
             = months_tbl ! b @ ''-'' @ [digit_char (q div 10), digit_char (q mod 10)]"
    by (simp only: Mon_YY_def a_def b_def p_def q_def)
  from label_parts_eq[OF ab d1 d0 this]
  have e: "a = b" "p div 10 = q div 10" "p mod 10 = q mod 10" by simp_all
  from e(2,3) have "p div 10 * 10 + p mod 10 = q div 10 * 10 + q mod 10" by (simp only:)
  then have "p = q" by (simp only: div_mult_mod_eq)
  moreover have "0 \<le> i div 12 mod 100" "0 \<le> j div 12 mod 100"
    and "0 \<le> i mod 12" "0 \<le> j mod 12" by simp_all
  ultimately show ?thesis
    using e(1) by (simp only: a_def b_def p_def q_def eq_nat_nat_iff)
qed

lemma inj_on_Mon_YY:
  assumes "j - i < 1200"
  shows "inj_on Mon_YY {i..j}"
proof (rule inj_onI)
  fix a b assume a: "a \<in> {i..j}" and b: "b \<in> {i..j}" and eq: "Mon_YY a = Mon_YY b"
  from Mon_YY_eq_iff[OF eq] have m: "a mod 12 = b mod 12" and y: "a div 12 mod 100 = b div 12 mod 100"
    by simp_all
  have ab: "a = 12 * (a div 12) + a mod 12" "b = 12 * (b div 12) + b mod 12" by simp_all
  from a b assms have "\<bar>a - b\<bar> < 1200" by auto
  with ab m have lt: "\<bar>a div 12 - b div 12\<bar> < 100" by linarith
  from y have "100 dvd (a div 12 - b div 12)" by (simp add: mod_eq_dvd_iff)
  then obtain k where k: "a div 12 - b div 12 = 100 * k" by (auto simp: dvd_def)
  with lt have "k = 0" by simp
  with k have "a div 12 = b div 12" by simp
  with ab m show "a = b" by simp
qed

lemma new_Date_month_at:
  assumes "m < 12" "\<not> (0 \<le> y \<and> y \<le> 99)"
  shows "new_Date y m 1 = month_at (y * 12 + int m)"
proof -
  let ?c = "\<lparr>getFullYear = y, getMonth = m, getDate = 1\<rparr>"
  have "month_at (month_index ?c) = ?c"
    using assms(1) by (intro month_at_month_index) simp_all
  with assms(2) show ?thesis
    by (simp add: new_Date_def month_index_def)
qed

lemma getMonthColumns_month_at:
  assumes "getMonth b < 12" "\<not> (0 \<le> getFullYear b \<and> getFullYear b \<le> 99)" "1 \<le> getDate e"
  shows "getMonthColumns b e
         = map (\<lambda>k. formatMonthKey (month_at k)) [month_index b..month_index e]"
proof -
  have "new_Date (getFullYear b) (getMonth b) 1 = month_at (month_index b)"
    unfolding month_index_def using assms(1,2) by (rule new_Date_month_at)
  then show ?thesis
    using assms(3) by (simp only: getMonthColumns_def Let_def month_loop_month_at)
qed

lemma month_index_new_Date: "month_index b \<le> month_index (new_Date (getFullYear b) (getMonth b) d)"
  by (simp add: month_index_def new_Date_def)

lemma getMonthColumns_Mon_YY:
  assumes "getMonth b < 12" "100 \<le> getFullYear b" "1 \<le> getDate e"
  shows "getMonthColumns b e = map Mon_YY [month_index b..month_index e]"
proof -
  from assms(2) have q: "\<not> (0 \<le> getFullYear b \<and> getFullYear b \<le> 99)" by simp
  from assms(2) have lo: "120 \<le> month_index b" by (simp add: month_index_def)
  have "map (\<lambda>k. formatMonthKey (month_at k)) [month_index b..month_index e]
        = map Mon_YY [month_index b..month_index e]"
    using lo by (intro map_cong refl formatMonthKey_month_at) simp
  with getMonthColumns_month_at[OF assms(1) q assms(3)] show ?thesis by simp
qed

text \<open>
  Claim C4, as the code has it. For a begin date not after the end date, with the begin
  year at least 100 (the \<^verbatim>\<open>Date\<close> constructor reads a year from 0 to 99 as 1900 + year),
  \<^verbatim>\<open>getMonthColumns\<close> returns the labels \<^verbatim>\<open>Mon-YY\<close> of the consecutive months from the
  begin month to the end month, in chronological order; their number is the difference of
  the two month counts plus one; and they are pairwise different as long as the range is
  shorter than 1200 months, since a label keeps two digits of the year.
\<close>

theorem getMonthColumns_range:
  assumes "valid_date b" "valid_date e" "date_le b e" "100 \<le> getFullYear b"
  shows "getMonthColumns b e = map Mon_YY [month_index b..month_index e]
       \<and> length (getMonthColumns b e) = nat (month_index e - month_index b + 1)
       \<and> (month_index e - month_index b < 1200 \<longrightarrow> distinct (getMonthColumns b e))"
proof -
  from assms(1,2) have v: "getMonth b < 12" "1 \<le> getDate e"
    by (simp_all add: valid_date_def)
  from v(1) assms(4) v(2)
  have eq: "getMonthColumns b e = map Mon_YY [month_index b..month_index e]"
    by (rule getMonthColumns_Mon_YY)
  have "month_index e - month_index b < 1200 \<Longrightarrow> distinct (getMonthColumns b e)"
    unfolding eq by (simp add: distinct_map inj_on_Mon_YY)
  with eq show ?thesis by simp
qed

text \<open>Claim C4, an instance: November 2024 to February 2025.\<close>

theorem getMonthColumns_range_witness:
  "valid_date \<lparr>getFullYear = 2024, getMonth = 10, getDate = 15\<rparr>
   \<and> valid_date \<lparr>getFullYear = 2025, getMonth = 1, getDate = 28\<rparr>
   \<and> date_le \<lparr>getFullYear = 2024, getMonth = 10, getDate = 15\<rparr>
              \<lparr>getFullYear = 2025, getMonth = 1, getDate = 28\<rparr>
   \<and> getMonthColumns \<lparr>getFullYear = 2024, getMonth = 10, getDate = 15\<rparr>
                       \<lparr>getFullYear = 2025, getMonth = 1, getDate = 28\<rparr>
       = map Mon_YY [24298, 24299, 24300, 24301]
   \<and> length (getMonthColumns \<lparr>getFullYear = 2024, getMonth = 10, getDate = 15\<rparr>
                               \<lparr>getFullYear = 2025, getMonth = 1, getDate = 28\<rparr>) = 4
   \<and> distinct (getMonthColumns \<lparr>getFullYear = 2024, getMonth = 10, getDate = 15\<rparr>
                                 \<lparr>getFullYear = 2025, getMonth = 1, getDate = 28\<rparr>)"
proof -
  let ?b = "\<lparr>getFullYear = 2024, getMonth = 10, getDate = 15\<rparr>"
  let ?e = "\<lparr>getFullYear = 2025, getMonth = 1, getDate = 28\<rparr>"
  have h: "valid_date ?b" "valid_date ?e" "date_le ?b ?e" "100 \<le> getFullYear ?b"
    by (simp_all add: valid_date_def date_le_def month_index_def)
  have u: "[24298..24301] = [24298, 24299, 24300, 24301]"
    by (simp add: upto_rec1)
  have i: "month_index ?b = 24298" "month_index ?e = 24301"
    by (simp_all add: month_index_def)
  note r = getMonthColumns_range[OF h, unfolded i u]
  from r have 1: "getMonthColumns ?b ?e = map Mon_YY [24298, 24299, 24300, 24301]"
    by (rule conjunct1)
  from r have 2: "length (getMonthColumns ?b ?e) = 4"
    by simp
  from r have 3: "distinct (getMonthColumns ?b ?e)"
    by (elim conjE) (erule mp, simp)
  from h(1-3) 1 2 3 show ?thesis
    by (intro conjI)
qed

text \<open>
  Claim C4 as stated fails: from January 1925 to January 2025 the first and the last label
  are both \<^verbatim>\<open>Jan-25\<close>; and for a begin date in the year 50 the loop starts in 1950 and
  returns nothing.
\<close>

theorem getMonthColumns_range_counterexample:
  "date_le \<lparr>getFullYear = 1925, getMonth = 0, getDate = 1\<rparr>
           \<lparr>getFullYear = 2025, getMonth = 0, getDate = 31\<rparr>
   \<and> \<not> distinct (getMonthColumns \<lparr>getFullYear = 1925, getMonth = 0, getDate = 1\<rparr>
                                   \<lparr>getFullYear = 2025, getMonth = 0, getDate = 31\<rparr>)
   \<and> date_le \<lparr>getFullYear = 50, getMonth = 0, getDate = 1\<rparr>
             \<lparr>getFullYear = 50, getMonth = 1, getDate = 1\<rparr>
   \<and> getMonthColumns \<lparr>getFullYear = 50, getMonth = 0, getDate = 1\<rparr>
                     \<lparr>getFullYear = 50, getMonth = 1, getDate = 1\<rparr> = []"
proof -
  let ?b = "\<lparr>getFullYear = 1925, getMonth = 0, getDate = 1\<rparr>"
  let ?e = "\<lparr>getFullYear = 2025, getMonth = 0, getDate = 31\<rparr>"
  have "getMonthColumns ?b ?e = map Mon_YY [month_index ?b..month_index ?e]"
    by (rule getMonthColumns_Mon_YY) simp_all
  then have eq: "getMonthColumns ?b ?e = map Mon_YY [23100..24300]"
    by (simp add: month_index_def)
  have "Mon_YY 23100 = Mon_YY 24300"
    by (simp add: Mon_YY_def)
  moreover have "(23100::int) \<in> {23100..24300}" "(24300::int) \<in> {23100..24300}"
    and "(23100::int) \<noteq> 24300" by simp_all
  ultimately have "\<not> inj_on Mon_YY {23100..24300}"
    by (blast dest: inj_onD)
  then have 1: "\<not> distinct (getMonthColumns ?b ?e)"
    unfolding eq distinct_map set_upto by blast
  have 2: "date_le ?b ?e"
    by (simp add: date_le_def month_index_def)
  have 3: "date_le \<lparr>getFullYear = 50, getMonth = 0, getDate = 1\<rparr>
             \<lparr>getFullYear = 50, getMonth = 1, getDate = 1\<rparr>
   \<and> getMonthColumns \<lparr>getFullYear = 50, getMonth = 0, getDate = 1\<rparr>
                     \<lparr>getFullYear = 50, getMonth = 1, getDate = 1\<rparr> = []"
    by code_simp
  from 1 2 3 show ?thesis by (intro conjI) simp_all
qed

text \<open>
  Claim C8, as the code has it. The loop starts on the first day of the begin month, so
  the result is empty when the begin month is after the end month. For two dates of the
  same calendar month, in a year from 100 on (the \<^verbatim>\<open>Date\<close> constructor reads a year from
  0 to 99 as 1900 + year), the result is the single label \<^verbatim>\<open>Mon-YY\<close> of that month,
  whatever the two days are, hence also when the begin day is after the end day.
\<close>

theorem getMonthColumns_reversed:
  "(month_index e < month_index b \<longrightarrow> getMonthColumns b e = [])
   \<and> (month_index e = month_index b \<and> valid_date b \<and> valid_date e \<and> 100 \<le> getFullYear b
      \<longrightarrow> getMonthColumns b e = [Mon_YY (month_index b)])"
proof (intro conjI impI)
  assume "month_index e < month_index b"
  with month_index_new_Date[of b 1]
  have "\<not> date_le (new_Date (getFullYear b) (getMonth b) 1) e"
    by (simp add: date_le_def)
  then show "getMonthColumns b e = []"
    by (simp add: getMonthColumns_def month_loop.simps)
next
  assume a: "month_index e = month_index b \<and> valid_date b \<and> valid_date e \<and> 100 \<le> getFullYear b"
  then have "getMonth b < 12" "100 \<le> getFullYear b" "1 \<le> getDate e"
    by (simp_all add: valid_date_def)
  then have "getMonthColumns b e = map Mon_YY [month_index b..month_index e]"
    by (rule getMonthColumns_Mon_YY)
  with a show "getMonthColumns b e = [Mon_YY (month_index b)]"
    by simp
qed

lemma Mon_YY_Jan_24: "Mon_YY 24288 = ''Jan-24''"
  by code_simp

text \<open>Claim C8, two instances: March against January 2024, and 20 against 10 January 2024.\<close>

theorem getMonthColumns_reversed_witness:
  "month_index \<lparr>getFullYear = 2024, getMonth = 0, getDate = 20\<rparr>
     < month_index \<lparr>getFullYear = 2024, getMonth = 2, getDate = 5\<rparr>
   \<and> getMonthColumns \<lparr>getFullYear = 2024, getMonth = 2, getDate = 5\<rparr>
                       \<lparr>getFullYear = 2024, getMonth = 0, getDate = 20\<rparr> = []
   \<and> month_index \<lparr>getFullYear = 2024, getMonth = 0, getDate = 10\<rparr>
     = month_index \<lparr>getFullYear = 2024, getMonth = 0, getDate = 20\<rparr>
   \<and> valid_date \<lparr>getFullYear = 2024, getMonth = 0, getDate = 20\<rparr>
   \<and> valid_date \<lparr>getFullYear = 2024, getMonth = 0, getDate = 10\<rparr>
   \<and> getMonthColumns \<lparr>getFullYear = 2024, getMonth = 0, getDate = 20\<rparr>
                       \<lparr>getFullYear = 2024, getMonth = 0, getDate = 10\<rparr>
       = [''Jan-24'']"
  using getMonthColumns_reversed
          [of "\<lparr>getFullYear = 2024, getMonth = 0, getDate = 20\<rparr>"
              "\<lparr>getFullYear = 2024, getMonth = 2, getDate = 5\<rparr>"]
        getMonthColumns_reversed
          [of "\<lparr>getFullYear = 2024, getMonth = 0, getDate = 10\<rparr>"
              "\<lparr>getFullYear = 2024, getMonth = 0, getDate = 20\<rparr>"]
  by (simp add: month_index_def valid_date_def Mon_YY_Jan_24)

text \<open>
  Claim C8 as stated fails: with begin 20 January 2024 and end 10 January 2024 the begin
  date is after the end date and the result is the one label \<^verbatim>\<open>Jan-24\<close>.
\<close>

theorem getMonthColumns_same_month_counterexample:
  "\<not> date_le \<lparr>getFullYear = 2024, getMonth = 0, getDate = 20\<rparr>
               \<lparr>getFullYear = 2024, getMonth = 0, getDate = 10\<rparr>
   \<and> getMonthColumns \<lparr>getFullYear = 2024, getMonth = 0, getDate = 20\<rparr>
                       \<lparr>getFullYear = 2024, getMonth = 0, getDate = 10\<rparr> = [''Jan-24'']"
  by code_simp

section \<open>Placeholder and failure rows\<close>

lemma map_of_fold_update:
  "map_of (fold (\<lambda>m cells. AList.update m (f m) cells) cols c) k
   = (if k \<in> set cols then Some (f k) else map_of c k)"
  by (induction cols arbitrary: c) (simp_all add: update_conv')

lemma map_of_fill_months:
  "map_of (fill_months cols f) k = (if k \<in> set cols then Some (f k) else None)"
  by (simp add: fill_months_def map_of_fold_update)

lemma type_fields_simps [simp]:
  "Institution_Name (type_fields rq a y e) = Institution_Name e"
  "Institution_ID (type_fields rq a y e) = Institution_ID e"
  "Title (type_fields rq a y e) = Title e"
  "Metric_Type (type_fields rq a y e) = Metric_Type e"
  "Reporting_Period_Total (type_fields rq a y e) = Reporting_Period_Total e"
  "month_cells (type_fields rq a y e) = month_cells e"
  by (simp_all add: type_fields_def Let_def)

text \<open>
  A payload whose \<^verbatim>\<open>Report_Items\<close> is absent or empty gives exactly one row: metric type
  \<^verbatim>\<open>No Data\<close>, the institution name of the header (\<^verbatim>\<open>No Data\<close> when the header has none),
  the id that \<^verbatim>\<open>getInstitutionId\<close> returns, total 0, one cell per month column, each 0; the
  result signals success, and the harvesting loop counts the account as successful.
\<close>

lemma placeholder_row:
  assumes "Report_Items jsonData = None \<or> Report_Items jsonData = Some []"
  shows "\<exists>r. entries (processApiResponse jsonData requestData acct) = [r]
           \<and> success (processApiResponse jsonData requestData acct)
           \<and> Metric_Type r = ''No Data''
           \<and> Institution_Name r
               = (if header_name jsonData \<noteq> '''' then header_name jsonData else ''No Data'')
           \<and> Institution_ID r = getInstitutionId jsonData
           \<and> Reporting_Period_Total r = 0
           \<and> (\<forall>m. map_of (month_cells r) m
                    = (if m \<in> set (run_months requestData) then Some 0 else None))
           \<and> (200 \<le> status \<and> status \<le> 299 \<longrightarrow>
                harvest_account requestData (acct, Response status (Body_json jsonData)) h
                = h\<lparr>results := results h @ [r], successful := successful h + 1\<rparr>)"
  using assms
  by (auto simp: processApiResponse_def Let_def new_entry_def header_name_def run_months_def
      map_of_fill_months harvest_account_def fetch_report_def)

lemma run_months_ex_request: "run_months (ex_request t) = [''Jan-24'', ''Feb-24'', ''Mar-24'']"
  unfolding run_months_def ex_request_def by code_simp

text \<open>
  From a header that holds the institution ids as a list of typed entries,
  \<^verbatim>\<open>getInstitutionId\<close> returns the value of the first entry typed \<^verbatim>\<open>Proprietary\<close>; from a
  header that holds them as an object whose \<^verbatim>\<open>Proprietary\<close> is a list, the first element
  of that list.
\<close>

lemma institution_id_of_typed_list:
  "map Institution_ID (entries (processApiResponse (ex_report []) (ex_request ''tr_j1'') ex_account))
   = [''a:1'']"
  by (simp add: processApiResponse_def Let_def new_entry_def ex_report_def getInstitutionId_def
      proprietary_entry_def)

lemma institution_id_of_list:
  "map Institution_ID
       (entries (processApiResponse ex_report_list_id (ex_request ''tr_j1'') ex_account))
   = [''abc:123'']"
  by (simp add: processApiResponse_def Let_def new_entry_def ex_report_list_id_def
      getInstitutionId_def proprietary_of_def)

text \<open>
  Claim C9 fails on the code for the institution id. \<^verbatim>\<open>getInstitutionId\<close> returns
  \<^verbatim>\<open>institutionIds.Proprietary?.[0] || institutionIds.Proprietary || ''\<close>, and for a
  \<^verbatim>\<open>Proprietary\<close> that is a string the index \<^verbatim>\<open>[0]\<close> gives its first character. A report
  without items whose header gives the id as \<^verbatim>\<open>{"Proprietary": "abc:123"}\<close> yields the one
  placeholder row, with the institution name of the header, metric type \<^verbatim>\<open>No Data\<close> and
  total 0, but with the institution id \<^verbatim>\<open>a\<close> in place of the \<^verbatim>\<open>abc:123\<close> of the header.
\<close>

theorem institution_id_first_character:
  "Report_Header ex_report_string_id
   = Some \<lparr>hdr_Institution_Name = ''Alpha Univ'',
           hdr_Institution_ID = Some (Ids_object (Prop_string ''abc:123''))\<rparr>
   \<and> Report_Items ex_report_string_id = Some []
   \<and> success (processApiResponse ex_report_string_id (ex_request ''tr_j1'') ex_account)
   \<and> map Metric_Type
         (entries (processApiResponse ex_report_string_id (ex_request ''tr_j1'') ex_account))
     = [''No Data'']
   \<and> map Institution_Name
         (entries (processApiResponse ex_report_string_id (ex_request ''tr_j1'') ex_account))
     = [''Alpha Univ'']
   \<and> map Reporting_Period_Total
         (entries (processApiResponse ex_report_string_id (ex_request ''tr_j1'') ex_account))
     = [0]
   \<and> map Institution_ID
         (entries (processApiResponse ex_report_string_id (ex_request ''tr_j1'') ex_account))
     = [''a'']"
  by (simp add: processApiResponse_def Let_def new_entry_def ex_report_string_id_def
      getInstitutionId_def proprietary_of_def)

text \<open>
  Claim C6. When the fetch rejects, the response is not in the 200 range (the code then
  throws \<^verbatim>\<open>API returned <status>\<close>) or the body fails to parse, the loop appends exactly
  one row and counts the account as failed: institution name \<^verbatim>\<open>ERROR\<close>, institution id
  the account's customer id, title \<^verbatim>\<open>Failed: \<close> followed by the error message, metric type
  \<^verbatim>\<open>ERROR\<close>, total 0 and every month column 0.
\<close>

theorem fetch_failure_row:
  assumes "f = Fetch_rejects message
         \<or> (\<exists>status b. f = Response status b \<and> \<not> (200 \<le> status \<and> status \<le> 299)
                \<and> message = ''API returned '' @ int_to_string status)
         \<or> (\<exists>status. f = Response status (Body_invalid message) \<and> 200 \<le> status \<and> status \<le> 299)"
  shows "harvest_account requestData (acct, f) h
           = h\<lparr>results := results h @ [createErrorEntry message requestData acct],
                failed := failed h + 1\<rparr>
       \<and> Institution_Name (createErrorEntry message requestData acct) = ''ERROR''
       \<and> Institution_ID (createErrorEntry message requestData acct) = customer_id acct
       \<and> Title (createErrorEntry message requestData acct) = ''Failed: '' @ message
       \<and> Metric_Type (createErrorEntry message requestData acct) = ''ERROR''
       \<and> Reporting_Period_Total (createErrorEntry message requestData acct) = 0
       \<and> (\<forall>m. map_of (month_cells (createErrorEntry message requestData acct)) m
                = (if m \<in> set (run_months requestData) then Some 0 else None))"
proof -
  from assms have "fetch_report f = Inl message"
    by (auto simp: fetch_report_def)
  then have "harvest_account requestData (acct, f) h
           = h\<lparr>results := results h @ [createErrorEntry message requestData acct],
                failed := failed h + 1\<rparr>"
    by (simp add: harvest_account_def)
  then show ?thesis
    by (simp add: createErrorEntry_def Let_def new_entry_def map_of_fill_months run_months_def)
qed

lemma int_to_string_500: "int_to_string 500 = ''500''"
  by code_simp

text \<open>Claim C6, an instance: a response with status 500.\<close>

theorem fetch_failure_row_witness:
  "harvest_account (ex_request ''tr_j1'') (ex_account, Response 500 (Body_json (ex_report []))) ex_harvest
     = \<lparr>results = [createErrorEntry ''API returned 500'' (ex_request ''tr_j1'') ex_account],
        successful = 0, failed = 1\<rparr>
   \<and> Title (createErrorEntry ''API returned 500'' (ex_request ''tr_j1'') ex_account)
       = ''Failed: API returned 500''
   \<and> Institution_ID (createErrorEntry ''API returned 500'' (ex_request ''tr_j1'') ex_account) = ''c9''
   \<and> Metric_Type (createErrorEntry ''API returned 500'' (ex_request ''tr_j1'') ex_account) = ''ERROR''
   \<and> map_of (month_cells (createErrorEntry ''API returned 500'' (ex_request ''tr_j1'') ex_account))
         ''Jan-24'' = Some 0"
proof -
  have h: "Response 500 (Body_json (ex_report [])) = Fetch_rejects ''API returned 500''
         \<or> (\<exists>status b. Response 500 (Body_json (ex_report [])) = Response status b
                \<and> \<not> (200 \<le> status \<and> status \<le> 299)
                \<and> ''API returned 500'' = ''API returned '' @ int_to_string status)
         \<or> (\<exists>status. Response 500 (Body_json (ex_report [])) = Response status (Body_invalid ''API returned 500'')
                \<and> 200 \<le> status \<and> status \<le> 299)"
    by (simp add: int_to_string_500)
  from fetch_failure_row[OF h, of "ex_request ''tr_j1''" ex_account ex_harvest]
  show ?thesis
    by (simp add: run_months_ex_request ex_harvest_def ex_account_def)
qed

section \<open>Legacy-schema month cells\<close>

text \<open>
  Claim C2 fails on the code. The first pass of the legacy schema adds every count to the
  total of the metric type but assigns it to the month cell, so of two period blocks that
  map to the same month label only the last count stays in the cell. Two January blocks
  with counts 5 and 3 give a row with total 8 and \<^verbatim>\<open>Jan-24\<close> = 3.
\<close>

theorem legacy_month_cell_overwritten:
  "map measures
       (entries (processApiResponse (ex_report [ex_item [ex_period 15 5, ex_period 20 3] None])
                   (ex_request ''tr_j1'') ex_account))
   = [(''Total_Item_Requests'', 8, [(''Jan-24'', 3), (''Feb-24'', 0), (''Mar-24'', 0)])]"
  by code_simp

section \<open>Month columns of the rows\<close>

lemma set_Object_entries [simp]: "set (Object_entries obj) = set obj"
  by (auto simp: Object_entries_def)

lemma set_update_subset: "set (AList.update k v al) \<subseteq> insert (k, v) (set al)"
  by (induction al) auto

lemma fold_invariant:
  assumes "I s" and "\<And>x s. x \<in> set xs \<Longrightarrow> I s \<Longrightarrow> I (f x s)"
  shows "I (fold f xs s)"
  using assms by (induction xs arbitrary: s) simp_all

lemma cells_within_collect_instance:
  assumes "cells_within P metricData" "P (inst_Metric_Type inst) monthKey"
  shows "cells_within P (collect_instance monthKey inst metricData)"
  unfolding cells_within_def
proof (intro ballI allI impI)
  fix md m
  let ?mt = "inst_Metric_Type inst"
  let ?cur = "case map_of metricData ?mt of
                None \<Rightarrow> \<lparr>md_monthlyValues = [], md_total = 0\<rparr> | Some d \<Rightarrow> d"
  assume md: "md \<in> set (collect_instance monthKey inst metricData)"
    and m: "map_of (md_monthlyValues (snd md)) m \<noteq> None"
  have cur: "map_of (md_monthlyValues ?cur) m \<noteq> None \<Longrightarrow> P ?mt m"
  proof (cases "map_of metricData ?mt")
    case None
    then show "map_of (md_monthlyValues ?cur) m \<noteq> None \<Longrightarrow> P ?mt m" by simp
  next
    case (Some d)
    then have "(?mt, d) \<in> set metricData" by (rule map_of_SomeD)
    with assms(1) Some show "map_of (md_monthlyValues ?cur) m \<noteq> None \<Longrightarrow> P ?mt m"
      by (auto simp: cells_within_def)
  qed
  from md set_update_subset
  have "md = (?mt, ?cur\<lparr>md_monthlyValues := AList.update monthKey
                 (or0 (parseInt_count (inst_Count inst))) (md_monthlyValues ?cur),
               md_total := md_total ?cur + or0 (parseInt_count (inst_Count inst))\<rparr>)
        \<or> md \<in> set metricData"
    unfolding collect_instance_def Let_def by fastforce
  then show "P (fst md) m"
  proof
    assume "md \<in> set metricData"
    with assms(1) m show ?thesis by (auto simp: cells_within_def)
  next
    assume "md = (?mt, ?cur\<lparr>md_monthlyValues := AList.update monthKey
                 (or0 (parseInt_count (inst_Count inst))) (md_monthlyValues ?cur),
               md_total := md_total ?cur + or0 (parseInt_count (inst_Count inst))\<rparr>)"
    with m cur assms(2) show ?thesis
      by (cases "m = monthKey") (simp_all add: update_conv')
  qed
qed

lemma cells_within_collect_metrics: "cells_within (populated_v5 item) (collect_metrics item)"
  unfolding collect_metrics_def
proof (rule fold_invariant[where I = "cells_within (populated_v5 item)"])
  show "cells_within (populated_v5 item) []" by (simp add: cells_within_def)
next
  fix perf metricData
  assume perf: "perf \<in> set (item_Performance item)"
    and inv: "cells_within (populated_v5 item) metricData"
  show "cells_within (populated_v5 item) (collect_performance perf metricData)"
  proof (cases "perf_Period perf")
    case None
    with inv show ?thesis by (simp add: collect_performance_def)
  next
    case (Some b)
    have "cells_within (populated_v5 item)
            (fold (collect_instance (month_key b)) (perf_Instance perf) metricData)"
    proof (rule fold_invariant[where I = "cells_within (populated_v5 item)"])
      show "cells_within (populated_v5 item) metricData" by (rule inv)
    next
      fix inst md'
      assume "inst \<in> set (perf_Instance perf)" "cells_within (populated_v5 item) md'"
      moreover from this(1) perf Some have "populated_v5 item (inst_Metric_Type inst) (month_key b)"
        unfolding populated_v5_def list_ex_iff
        by (intro bexI[of _ perf]) (auto simp: list_ex_iff)
      ultimately show "cells_within (populated_v5 item) (collect_instance (month_key b) inst md')"
        by (intro cells_within_collect_instance)
    qed
    with Some show ?thesis by (simp add: collect_performance_def)
  qed
qed

lemma sum_months_keys:
  "map_of (fst (sum_months monthlyData)) m \<noteq> None \<Longrightarrow> populated_v51 monthlyData m"
proof -
  let ?I = "\<lambda>s :: (string \<times> int) list \<times> int.
              \<forall>m. map_of (fst s) m \<noteq> None \<longrightarrow> populated_v51 monthlyData m"
  have "?I (sum_months monthlyData)"
    unfolding sum_months_def
  proof (rule fold_invariant[where I = ?I])
    show "?I ([], 0)" by simp
  next
    fix mc s assume "mc \<in> set (Object_entries monthlyData)" "?I s"
    then show "?I ((\<lambda>mc (monthlyValues, total_count).
             let monthValue = or0 (parseInt_count (snd mc));
                 monthKey = convertApiMonthToDisplayMonth (fst mc)
             in (AList.update monthKey monthValue monthlyValues, total_count + monthValue)) mc s)"
      by (cases s) (auto simp: Let_def update_conv' populated_v51_def list_ex_iff)
  qed
  then show "map_of (fst (sum_months monthlyData)) m \<noteq> None \<Longrightarrow> populated_v51 monthlyData m"
    by blast
qed

lemma keys_fill_months: "fst ` set (fill_months cols f) = set cols"
proof -
  have "dom (map_of (fill_months cols f)) = set cols"
    by (auto simp: map_of_fill_months dom_def)
  then show ?thesis by (simp add: dom_map_of_conv_image_fst)
qed

lemma month_cells_entry_v5:
  "month_cells (entry_v5 rq n i cols bd a y md)
   = fill_months cols (\<lambda>month. or0 (map_of (md_monthlyValues (snd md)) month))"
  by (simp add: entry_v5_def)

lemma month_cells_entry_v51:
  "month_cells (entry_v51 rq n i cols bd ap mp)
   = fill_months cols (\<lambda>month. or0 (map_of (fst (sum_months (snd mp))) month))"
  by (simp add: entry_v51_def Let_def)

lemma month_cells_createErrorEntry:
  "month_cells (createErrorEntry message rq acct) = fill_months (run_months rq) (\<lambda>month. 0)"
  by (simp add: createErrorEntry_def Let_def run_months_def)

lemma month_cells_entries:
  assumes "r \<in> set (entries (processApiResponse jsonData rq acct))"
  shows "\<exists>f. month_cells r = fill_months (run_months rq) f"
  using assms
  by (auto simp: processApiResponse_def Let_def rows_v5_def rows_v51_def run_months_def
      month_cells_entry_v5 month_cells_entry_v51 split: if_splits)

lemma month_cells_harvest:
  assumes "r \<in> set (results (fold (harvest_account rq) accts h))"
  shows "r \<in> set (results h) \<or> (\<exists>f. month_cells r = fill_months (run_months rq) f)"
  using assms
proof (induction accts arbitrary: h)
  case Nil
  then show ?case by simp
next
  case (Cons af accts)
  from Cons.IH[of "harvest_account rq af h"] Cons.prems
  have "r \<in> set (results (harvest_account rq af h))
        \<or> (\<exists>f. month_cells r = fill_months (run_months rq) f)" by simp
  then show ?case
  proof
    assume "r \<in> set (results (harvest_account rq af h))"
    then show ?thesis
      by (auto simp: harvest_account_def Let_def month_cells_createErrorEntry
          dest: month_cells_entries split: sum.splits if_splits)
  qed simp
qed

text \<open>
  Claim C5. Every row of a run, whatever produced it, has exactly the month columns of
  the run as the keys of its month cells. A month that the report did not populate holds
  0: in a legacy row when no period block with that label has an instance of the row's
  metric type, in a current-schema row when no month key of the metric's count map maps to
  the label, in the failure row and in the no-data row always.
\<close>

theorem month_columns_of_every_row:
  "(\<forall>r \<in> set (results (harvest_all requestData accts)).
      fst ` set (month_cells r) = set (run_months requestData))
   \<and> (\<forall>r \<in> set (rows_v5 requestData n i (run_months requestData) item).
        \<forall>m \<in> set (run_months requestData).
          \<not> populated_v5 item (Metric_Type r) m \<longrightarrow> map_of (month_cells r) m = Some 0)
   \<and> (\<forall>mp \<in> set (ap_Performance attrPerf). \<forall>m \<in> set (run_months requestData).
          \<not> populated_v51 (snd mp) m \<longrightarrow>
          map_of (month_cells (entry_v51 requestData n i (run_months requestData) baseData
                                 attrPerf mp)) m = Some 0)
   \<and> (\<forall>m \<in> set (run_months requestData).
          map_of (month_cells (createErrorEntry message requestData acct)) m = Some 0)
   \<and> (\<forall>r \<in> set (entries (processApiResponse
                               \<lparr>Report_Header = hdr, Report_Items = Some []\<rparr> requestData acct)).
        \<forall>m \<in> set (run_months requestData). map_of (month_cells r) m = Some 0)"
proof (intro conjI ballI impI)
  fix r assume "r \<in> set (results (harvest_all requestData accts))"
  then have "\<exists>f. month_cells r = fill_months (run_months requestData) f"
    unfolding harvest_all_def by (auto dest: month_cells_harvest)
  then obtain f where "month_cells r = fill_months (run_months requestData) f" ..
  then show "fst ` set (month_cells r) = set (run_months requestData)"
    by (simp only: keys_fill_months)
next
  fix r m
  assume r: "r \<in> set (rows_v5 requestData n i (run_months requestData) item)"
    and m: "m \<in> set (run_months requestData)"
    and u: "\<not> populated_v5 item (Metric_Type r) m"
  from r obtain md where md: "md \<in> set (collect_metrics item)"
    and r_eq: "r = entry_v5 requestData n i (run_months requestData) (extractItemData item)
                     (item_Access_Type item)
                     (if item_YOP item \<noteq> [] then item_YOP item else item_Year_of_Publication item)
                     md"
    by (auto simp: rows_v5_def Let_def)
  have mt: "Metric_Type r = fst md"
    by (simp add: r_eq entry_v5_def new_entry_def)
  from cells_within_collect_metrics[of item] md u
  have "map_of (md_monthlyValues (snd md)) m = None"
    unfolding cells_within_def mt by blast
  with m show "map_of (month_cells r) m = Some 0"
    by (simp add: r_eq month_cells_entry_v5 map_of_fill_months or0_def)
next
  fix mp :: "string \<times> (string \<times> json_count) list" and m
  assume "m \<in> set (run_months requestData)" "\<not> populated_v51 (snd mp) m"
  moreover from this(2) have "map_of (fst (sum_months (snd mp))) m = None"
    using sum_months_keys by blast
  ultimately show "map_of (month_cells (entry_v51 requestData n i (run_months requestData) baseData
                                 attrPerf mp)) m = Some 0"
    by (simp add: month_cells_entry_v51 map_of_fill_months or0_def)
next
  fix m assume "m \<in> set (run_months requestData)"
  then show "map_of (month_cells (createErrorEntry message requestData acct)) m = Some 0"
    by (simp add: month_cells_createErrorEntry map_of_fill_months)
next
  fix r m
  assume "r \<in> set (entries (processApiResponse
                               \<lparr>Report_Header = hdr, Report_Items = Some []\<rparr> requestData acct))"
    and "m \<in> set (run_months requestData)"
  then show "map_of (month_cells r) m = Some 0"
    by (auto simp: processApiResponse_def Let_def run_months_def map_of_fill_months)
qed

lemma ex_rows_v5:
  "rows_v5 (ex_request ''tr_j1'') ''Alpha Univ'' ''a:1'' [''Jan-24'', ''Feb-24'', ''Mar-24'']
     (ex_item [ex_period 15 5] None)
   = [entry_v5 (ex_request ''tr_j1'') ''Alpha Univ'' ''a:1'' [''Jan-24'', ''Feb-24'', ''Mar-24'']
        (extractItemData (ex_item [ex_period 15 5] None)) ''Controlled'' ''''
        (''Total_Item_Requests'', \<lparr>md_monthlyValues = [(''Jan-24'', 5)], md_total = 5\<rparr>)]"
  by code_simp

lemma ex_populated_v5:
  "\<not> populated_v5 (ex_item [ex_period 15 5] None) ''Total_Item_Requests'' ''Feb-24''"
  by code_simp

lemma ex_populated_v51:
  "\<not> populated_v51 [(''2024-01'', Count_number 3), (''2024-02'', Count_number 4)] ''Mar-24''"
  by code_simp

text \<open>
  Claim C5, an instance: a run over January to March 2024 with one failed account; a
  legacy item counted in January only; a current-schema entry counted in January and
  February only; a report without items.
\<close>

theorem month_columns_of_every_row_witness:
  "createErrorEntry ''timeout'' (ex_request ''tr_j1'') ex_account
     \<in> set (results (harvest_all (ex_request ''tr_j1'') [(ex_account, Fetch_rejects ''timeout'')]))
   \<and> fst ` set (month_cells (createErrorEntry ''timeout'' (ex_request ''tr_j1'') ex_account))
       = {''Jan-24'', ''Feb-24'', ''Mar-24''}
   \<and> map_of (month_cells (createErrorEntry ''timeout'' (ex_request ''tr_j1'') ex_account)) ''Jan-24''
       = Some 0
   \<and> map_of (month_cells
         (entry_v5 (ex_request ''tr_j1'') ''Alpha Univ'' ''a:1'' [''Jan-24'', ''Feb-24'', ''Mar-24'']
            (extractItemData (ex_item [ex_period 15 5] None)) ''Controlled'' ''''
            (''Total_Item_Requests'', \<lparr>md_monthlyValues = [(''Jan-24'', 5)], md_total = 5\<rparr>)))
         ''Feb-24'' = Some 0
   \<and> map_of (month_cells
         (entry_v51 (ex_request ''tr_j1'') ''Alpha Univ'' ''a:1'' [''Jan-24'', ''Feb-24'', ''Mar-24'']
            placeholder_data ex_attr_perf
            (''Total_Item_Requests'', [(''2024-01'', Count_number 3), (''2024-02'', Count_number 4)])))
         ''Mar-24'' = Some 0
   \<and> map_of (month_cells
         (hd (entries (processApiResponse \<lparr>Report_Header = None, Report_Items = Some []\<rparr>
                         (ex_request ''tr_j1'') ex_account))))
         ''Mar-24'' = Some 0"
proof -
  let ?rq = "ex_request ''tr_j1''"
  let ?err = "createErrorEntry ''timeout'' ?rq ex_account"
  let ?mp = "(''Total_Item_Requests'', [(''2024-01'', Count_number 3), (''2024-02'', Count_number 4)])"
  let ?nodata = "processApiResponse \<lparr>Report_Header = None, Report_Items = Some []\<rparr> ?rq ex_account"
  note t = month_columns_of_every_row
             [of ?rq "[(ex_account, Fetch_rejects ''timeout'')]" "''Alpha Univ''" "''a:1''"
                 "ex_item [ex_period 15 5] None" ex_attr_perf placeholder_data "''timeout''"
                 ex_account None,
              unfolded run_months_ex_request ex_rows_v5]
  have m: "?err \<in> set (results (harvest_all ?rq [(ex_account, Fetch_rejects ''timeout'')]))"
    by (simp add: harvest_all_def harvest_account_def fetch_report_def)
  with t have 1: "fst ` set (month_cells ?err) = set [''Jan-24'', ''Feb-24'', ''Mar-24'']"
    by blast
  from t have 2: "map_of (month_cells ?err) ''Jan-24'' = Some 0"
    by simp
  have mt: "Metric_Type (entry_v5 ?rq ''Alpha Univ'' ''a:1'' [''Jan-24'', ''Feb-24'', ''Mar-24'']
            (extractItemData (ex_item [ex_period 15 5] None)) ''Controlled'' ''''
            (''Total_Item_Requests'', \<lparr>md_monthlyValues = [(''Jan-24'', 5)], md_total = 5\<rparr>))
        = ''Total_Item_Requests''"
    by (simp add: entry_v5_def new_entry_def)
  from t ex_populated_v5 have 3: "map_of (month_cells
         (entry_v5 ?rq ''Alpha Univ'' ''a:1'' [''Jan-24'', ''Feb-24'', ''Mar-24'']
            (extractItemData (ex_item [ex_period 15 5] None)) ''Controlled'' ''''
            (''Total_Item_Requests'', \<lparr>md_monthlyValues = [(''Jan-24'', 5)], md_total = 5\<rparr>)))
         ''Feb-24'' = Some 0"
    by (simp add: mt)
  have "?mp \<in> set (ap_Performance ex_attr_perf)"
    by (simp add: ex_attr_perf_def)
  with t ex_populated_v51 have 4: "map_of (month_cells
         (entry_v51 ?rq ''Alpha Univ'' ''a:1'' [''Jan-24'', ''Feb-24'', ''Mar-24'']
            placeholder_data ex_attr_perf ?mp)) ''Mar-24'' = Some 0"
    by simp
  have "hd (entries ?nodata) \<in> set (entries ?nodata)"
    by (simp add: processApiResponse_def Let_def)
  with t have 5: "map_of (month_cells (hd (entries ?nodata))) ''Mar-24'' = Some 0"
    by simp
  from m 1 2 3 4 5 show ?thesis
    by simp
qed

section \<open>The pivot aggregator: partition and totals\<close>

lemma createErrorEntry_ex:
  "createErrorEntry ''API returned 500'' (ex_request ''tr_j1'') ex_account = ex_failed_row"
  by code_simp

lemma pivotRows_ex_failed_row:
  "pivotRows [ex_failed_row] (ex_request ''tr_j1'')
   = Inr [\<lparr>label = ''ERROR'', level = 0, total = 0, months = [0, 0, 0]\<rparr>,
          \<lparr>label = ''Grand Total'', level = 0, total = 0, months = [0, 0, 0]\<rparr>]"
  by code_simp

text \<open>
  Claim C1 fails on the code. The partition of \<^verbatim>\<open>formatAsPivot\<close> tests the title against
  \<^verbatim>\<open>ERROR\<close>, while the row of a failed fetch has the title \<^verbatim>\<open>Failed: ...\<close> and carries
  \<^verbatim>\<open>ERROR\<close> in its metric type and institution name. Such a row is therefore kept as
  valid: it is grouped as an institution called \<^verbatim>\<open>ERROR\<close> in the pivot body, and the output
  gets no errors section.
\<close>

theorem error_row_kept_as_valid:
  "createErrorEntry ''API returned 500'' (ex_request ''tr_j1'') ex_account = ex_failed_row
   \<and> Metric_Type ex_failed_row = ''ERROR''
   \<and> validData [ex_failed_row] = [ex_failed_row]
   \<and> error_lines (errorData [ex_failed_row]) = []
   \<and> pivotRows [ex_failed_row] (ex_request ''tr_j1'')
       = Inr [\<lparr>label = ''ERROR'', level = 0, total = 0, months = [0, 0, 0]\<rparr>,
              \<lparr>label = ''Grand Total'', level = 0, total = 0, months = [0, 0, 0]\<rparr>]"
proof (intro conjI)
  show "createErrorEntry ''API returned 500'' (ex_request ''tr_j1'') ex_account = ex_failed_row"
    by (rule createErrorEntry_ex)
  show "Metric_Type ex_failed_row = ''ERROR''"
    by (simp add: ex_failed_row_def new_entry_def)
  have t: "Title ex_failed_row \<noteq> ''ERROR''" "Metric_Type ex_failed_row \<noteq> ''No Data''"
    by (simp_all add: ex_failed_row_def new_entry_def)
  then show "validData [ex_failed_row] = [ex_failed_row]"
    by (simp add: validData_def)
  from t show "error_lines (errorData [ex_failed_row]) = []"
    by (simp add: errorData_def error_lines_def)
  show "pivotRows [ex_failed_row] (ex_request ''tr_j1'')
        = Inr [\<lparr>label = ''ERROR'', level = 0, total = 0, months = [0, 0, 0]\<rparr>,
               \<lparr>label = ''Grand Total'', level = 0, total = 0, months = [0, 0, 0]\<rparr>]"
    by (rule pivotRows_ex_failed_row)
qed

text \<open>
  Claim C3 fails on the code for the report types grouped by metric type only. There the
  institution total adds every metric type of the institution, while level-1 rows are
  written only for the four names of \<^verbatim>\<open>metricOrder\<close>. With a \<^verbatim>\<open>Limit_Exceeded\<close> row (a
  metric of TR_J2) of total 7 next to a \<^verbatim>\<open>Total_Item_Requests\<close> row of total 5, the
  institution row shows 12 and its only child 5.
\<close>

theorem institution_total_exceeds_children:
  "pivotRows [ex_row ''Alpha Univ'' ''Total_Item_Requests'' 5 5,
              ex_row ''Alpha Univ'' ''Limit_Exceeded'' 7 7] (ex_request ''tr_j2'')
   = Inr [\<lparr>label = ''Alpha Univ'', level = 0, total = 12, months = [12, 0, 0]\<rparr>,
          \<lparr>label = ''Total_Item_Requests'', level = 1, total = 5, months = [5, 0, 0]\<rparr>,
          \<lparr>label = ''Grand Total'', level = 0, total = 12, months = [12, 0, 0]\<rparr>]"
  by code_simp

section \<open>The pivot aggregator: institutions and blocks\<close>



lemma push_institution_row_plain:
  "Institution_Name r \<notin> set proto_names \<Longrightarrow> push_institution_row r acc = Inr (store_row r acc)"
  by (simp add: push_institution_row_def store_row_def Let_def split: option.splits)



lemma group_rows_inherited:
  assumes "\<exists>r \<in> set rows. Institution_Name r \<in> set proto_names"
    and "\<forall>k \<in> set proto_names. map_of acc k = None"
  shows "group_rows rows acc = Inl TypeError"
  using assms
proof (induction rows arbitrary: acc)
  case Nil
  then show ?case by simp
next
  case (Cons r rows)
  show ?case
  proof (cases "Institution_Name r \<in> set proto_names")
    case True
    with Cons.prems(2) have "map_of acc (Institution_Name r) = None" by blast
    with True show ?thesis
      by (simp add: push_institution_row_def Let_def)
  next
    case False
    with Cons.prems(1) have 1: "\<exists>r \<in> set rows. Institution_Name r \<in> set proto_names"
      by auto
    from False Cons.prems(2)
    have 2: "\<forall>k \<in> set proto_names. map_of (store_row r acc) k = None"
      by (auto simp: store_row_def update_conv')
    from False show ?thesis
      by (simp add: push_institution_row_plain Cons.IH[OF 1 2])
  qed
qed

lemma pivotRows_inherited_name:
  assumes "\<exists>r \<in> set (validData data). Institution_Name r \<in> set proto_names"
  shows "pivotRows data requestData = Inl TypeError"
proof -
  from assms have "group_by_institution (validData data) = Inl TypeError"
    unfolding group_by_institution_def by (intro group_rows_inherited) simp_all
  then show ?thesis
    by (simp add: pivotRows_def Let_def)
qed








section \<open>The pivot aggregator: access types\<close>

lemma ex_j3_unknown_valid:
  "validData [ex_row_j3 ''Alpha Univ'' ''Open'' ''Total_Item_Requests'' 5,
              ex_row_j3 ''Alpha Univ'' '''' ''Total_Item_Requests'' 3,
              ex_row_j3 ''Alpha Univ'' ''OA_Gold'' ''Total_Item_Requests'' 2]
   = [ex_row_j3 ''Alpha Univ'' ''Open'' ''Total_Item_Requests'' 5,
      ex_row_j3 ''Alpha Univ'' '''' ''Total_Item_Requests'' 3,
      ex_row_j3 ''Alpha Univ'' ''OA_Gold'' ''Total_Item_Requests'' 2]"
  by (simp add: validData_def ex_row_j3_def ex_row_def new_entry_def)

lemma ex_j3_unknown_buckets:
  "map fst (group_nested [''Jan-24'', ''Feb-24'', ''Mar-24''] access_bucket
              [ex_row_j3 ''Alpha Univ'' ''Open'' ''Total_Item_Requests'' 5,
               ex_row_j3 ''Alpha Univ'' '''' ''Total_Item_Requests'' 3,
               ex_row_j3 ''Alpha Univ'' ''OA_Gold'' ''Total_Item_Requests'' 2])
   = [''Open'', ''Unknown'', ''OA_Gold'']"
  by code_simp

lemma ex_j3_unknown_pivot:
  "pivotRows [ex_row_j3 ''Alpha Univ'' ''Open'' ''Total_Item_Requests'' 5,
              ex_row_j3 ''Alpha Univ'' '''' ''Total_Item_Requests'' 3,
              ex_row_j3 ''Alpha Univ'' ''OA_Gold'' ''Total_Item_Requests'' 2] (ex_request ''tr_j3'')
   = Inr [\<lparr>label = ''Alpha Univ'', level = 0, total = 5, months = [5, 0, 0]\<rparr>,
          \<lparr>label = ''Open'', level = 1, total = 5, months = [5, 0, 0]\<rparr>,
          \<lparr>label = ''Total_Item_Requests'', level = 2, total = 5, months = [5, 0, 0]\<rparr>,
          \<lparr>label = ''Grand Total'', level = 0, total = 5, months = [5, 0, 0]\<rparr>]"
  by code_simp

text \<open>
  The branch for TR_J4 groups in the same way, by \<^verbatim>\<open>row.YOP || 'Unknown'\<close>, and writes a
  level-1 row for every bucket it has built, the \<^verbatim>\<open>Unknown\<close> one included and counted in
  the totals.
\<close>

lemma unknown_year_bucket_emitted:
  "pivotRows [ex_row_j4 ''Alpha Univ'' ''2021'' ''Total_Item_Requests'' 5,
              ex_row_j4 ''Alpha Univ'' '''' ''Total_Item_Requests'' 3] (ex_request ''tr_j4'')
   = Inr [\<lparr>label = ''Alpha Univ'', level = 0, total = 8, months = [8, 0, 0]\<rparr>,
          \<lparr>label = ''2021'', level = 1, total = 5, months = [5, 0, 0]\<rparr>,
          \<lparr>label = ''Total_Item_Requests'', level = 2, total = 5, months = [5, 0, 0]\<rparr>,
          \<lparr>label = ''Unknown'', level = 1, total = 3, months = [3, 0, 0]\<rparr>,
          \<lparr>label = ''Total_Item_Requests'', level = 2, total = 3, months = [3, 0, 0]\<rparr>,
          \<lparr>label = ''Grand Total'', level = 0, total = 8, months = [8, 0, 0]\<rparr>]"
  by code_simp

text \<open>
  Claim C7 fails on the code. The TR_J3 branch groups a valid row under
  \<^verbatim>\<open>row.Access_Type || 'Unknown'\<close>, so a row without access type is put into the bucket
  \<^verbatim>\<open>Unknown\<close> and a row with another tag into a bucket of that name; but both loops that
  follow, the one that adds up the institution total and the one that writes the rows, run
  over \<^verbatim>\<open>Controlled\<close>, \<^verbatim>\<open>Free_To_Read\<close>, \<^verbatim>\<open>Open\<close> only. Of three valid rows of one
  institution, tagged \<^verbatim>\<open>Open\<close> (total 5), untagged (total 3) and tagged \<^verbatim>\<open>OA_Gold\<close>
  (total 2), the pivot shows the \<^verbatim>\<open>Open\<close> bucket alone: there is no \<^verbatim>\<open>Unknown\<close> row,
  and the institution total and the grand total are 5, not 10.
\<close>

theorem unknown_bucket_not_emitted:
  "validData [ex_row_j3 ''Alpha Univ'' ''Open'' ''Total_Item_Requests'' 5,
              ex_row_j3 ''Alpha Univ'' '''' ''Total_Item_Requests'' 3,
              ex_row_j3 ''Alpha Univ'' ''OA_Gold'' ''Total_Item_Requests'' 2]
   = [ex_row_j3 ''Alpha Univ'' ''Open'' ''Total_Item_Requests'' 5,
      ex_row_j3 ''Alpha Univ'' '''' ''Total_Item_Requests'' 3,
      ex_row_j3 ''Alpha Univ'' ''OA_Gold'' ''Total_Item_Requests'' 2]
   \<and> map fst (group_nested [''Jan-24'', ''Feb-24'', ''Mar-24''] access_bucket
              [ex_row_j3 ''Alpha Univ'' ''Open'' ''Total_Item_Requests'' 5,
               ex_row_j3 ''Alpha Univ'' '''' ''Total_Item_Requests'' 3,
               ex_row_j3 ''Alpha Univ'' ''OA_Gold'' ''Total_Item_Requests'' 2])
     = [''Open'', ''Unknown'', ''OA_Gold'']
   \<and> pivotRows [ex_row_j3 ''Alpha Univ'' ''Open'' ''Total_Item_Requests'' 5,
                ex_row_j3 ''Alpha Univ'' '''' ''Total_Item_Requests'' 3,
                ex_row_j3 ''Alpha Univ'' ''OA_Gold'' ''Total_Item_Requests'' 2]
               (ex_request ''tr_j3'')
     = Inr [\<lparr>label = ''Alpha Univ'', level = 0, total = 5, months = [5, 0, 0]\<rparr>,
            \<lparr>label = ''Open'', level = 1, total = 5, months = [5, 0, 0]\<rparr>,
            \<lparr>label = ''Total_Item_Requests'', level = 2, total = 5, months = [5, 0, 0]\<rparr>,
            \<lparr>label = ''Grand Total'', level = 0, total = 5, months = [5, 0, 0]\<rparr>]"
  by (intro conjI) (rule ex_j3_unknown_valid, rule ex_j3_unknown_buckets, rule ex_j3_unknown_pivot)

section \<open>The pivot aggregator: the grand total row\<close>


















end
